theory Spec2Isabelle
  imports Complex_Main "HOL-Library.AList"
begin

section \<open>Python values used by server.py\<close>

text \<open>
  A Python \<open>str\<close> is modelled as a \<^typ>\<open>string\<close> of ASCII characters. On such strings
  \<open>str.isdigit\<close> holds exactly for the non-empty strings over \<open>0\<close>..\<open>9\<close>, and
  \<open>str.strip\<close> removes the ASCII white space characters 0x09-0x0D, 0x1C-0x1F and 0x20.
\<close>

definition is_digit :: "char \<Rightarrow> bool" where
  "is_digit c = (c \<in> set ''0123456789'')"

definition is_space :: "char \<Rightarrow> bool" where
  "is_space c = (c \<in> set [CHR 0x09, CHR 0x0A, CHR 0x0B, CHR 0x0C, CHR 0x0D,
                            CHR 0x1C, CHR 0x1D, CHR 0x1E, CHR 0x1F, CHR 0x20])"

definition py_isdigit :: "string \<Rightarrow> bool" where
  "py_isdigit s = (s \<noteq> [] \<and> list_all is_digit s)"

definition py_strip :: "string \<Rightarrow> string" where
  "py_strip s = rev (dropWhile is_space (rev (dropWhile is_space s)))"

text \<open>\<open>s.split(sep)\<close> for a one-character separator: never empty, one piece more than
  there are separators.\<close>

fun py_split :: "char \<Rightarrow> string \<Rightarrow> string list" where
  "py_split sep [] = [[]]"
| "py_split sep (c # cs) =
     (if c = sep then [] # py_split sep cs
      else (case py_split sep cs of [] \<Rightarrow> [[c]] | w # ws \<Rightarrow> (c # w) # ws))"

text \<open>\<open>sep.join(parts)\<close>, used to state what the pieces of a split are.\<close>

fun py_join :: "char \<Rightarrow> string list \<Rightarrow> string" where
  "py_join sep [] = []"
| "py_join sep [p] = p"
| "py_join sep (p # q # ps) = p @ sep # py_join sep (q # ps)"

text \<open>Decimal digits of a natural number, as \<open>str(n)\<close> and the f-strings print it.\<close>

fun digits_of :: "nat \<Rightarrow> string" where
  "digits_of n =
     (if n < 10 then [''0123456789'' ! n]
      else digits_of (n div 10) @ [''0123456789'' ! (n mod 10)])"

declare digits_of.simps [simp del]

definition digit_value :: "char \<Rightarrow> nat" where
  "digit_value c = of_char c - 48"

definition digits_value :: "string \<Rightarrow> nat" where
  "digits_value ds = foldl (\<lambda>acc c. 10 * acc + digit_value c) 0 ds"

text \<open>
  The exceptions the modelled code can meet, all instances of \<open>Exception\<close>, the class
  the tools catch. Each carries what is needed to print it; \<open>Raised\<close> stands for any
  exception a collaborator raises (credential loading, the HTTP client, \<open>urlopen\<close>, UTF-8
  decoding) with its message. Interrupts of the process that are no \<open>Exception\<close>
  (\<open>KeyboardInterrupt\<close>, \<open>SystemExit\<close>) are outside the model.
\<close>

datatype py_exception =
    ValueError string
  | KeyError string
  | AttributeError string
  | CsvError string
  | Raised string

text \<open>A short string between apostrophes, as \<open>repr\<close> prints it.\<close>

definition quoted :: "string \<Rightarrow> string" where
  "quoted s = CHR 0x27 # s @ [CHR 0x27]"

text \<open>\<open>str(e)\<close>: a \<open>KeyError\<close> prints the \<open>repr\<close> of its key.\<close>

fun exception_str :: "py_exception \<Rightarrow> string" where
  "exception_str (ValueError m) = m"
| "exception_str (KeyError k) = quoted k"
| "exception_str (AttributeError m) = m"
| "exception_str (CsvError m) = m"
| "exception_str (Raised m) = m"

section \<open>Date Formatter: \<open>format_date_for_api\<close>\<close>

record api_date =
  year :: string
  month :: string
  day :: string

text \<open>
  \<open>year, month, day = date_str.split('-')\<close>: unpacking any number of pieces other than
  three raises \<open>ValueError\<close> (message as CPython 3.8-3.13 words it).
\<close>

definition unpack_error :: "nat \<Rightarrow> py_exception" where
  "unpack_error n =
     (if n < 3 then ValueError (''not enough values to unpack (expected 3, got '' @ digits_of n @ '')'')
      else ValueError ''too many values to unpack (expected 3)'')"

definition format_date_for_api :: "string \<Rightarrow> py_exception + api_date" where
  "format_date_for_api date_str =
     (case py_split CHR ''-'' date_str of
        [y, m, d] \<Rightarrow> Inr \<lparr>year = y, month = m, day = d\<rparr>
      | parts \<Rightarrow> Inl (unpack_error (length parts)))"

section \<open>Filter Builder and Field Normalizer\<close>

text \<open>An argument of type \<open>Union[List[str], str]\<close>.\<close>

datatype str_or_list = Str string | StrList "string list"

text \<open>Python truth of such a value: the empty string and the empty list are false.\<close>

fun truthy :: "str_or_list \<Rightarrow> bool" where
  "truthy (Str s) = (s \<noteq> [])"
| "truthy (StrList l) = (l \<noteq> [])"

text \<open>The dictionary \<open>{"type": t, "value": v}\<close>.\<close>

record filter_clause =
  filter_type :: string
  filter_value :: string

text \<open>\<open>[x.strip() for x in s.split(',')]\<close>\<close>

definition split_and_strip :: "string \<Rightarrow> string list" where
  "split_and_strip s = map py_strip (py_split CHR '','' s)"

text \<open>\<open>if isinstance(ids, str): ids = [id.strip() for id in ids.split(',')]\<close>: a string is
  split and trimmed, a list is taken as it is.\<close>

fun as_list :: "str_or_list \<Rightarrow> string list" where
  "as_list (Str s) = split_and_strip s"
| "as_list (StrList l) = l"

text \<open>
  One of the four blocks of \<open>prepare_filters\<close>, which differ in the argument and the
  filter type only:
  \<^verbatim>\<open>
    if ids:
        if isinstance(ids, str):
            ids = [id.strip() for id in ids.split(',')]
        for x in ids:
            filters.append({"type": T, "value": x})
  \<close>
\<close>

fun append_filters :: "string \<Rightarrow> str_or_list option \<Rightarrow> filter_clause list \<Rightarrow> filter_clause list" where
  "append_filters t None filters = filters"
| "append_filters t (Some ids) filters =
     (if truthy ids
      then foldl (\<lambda>fs x. fs @ [\<lparr>filter_type = t, filter_value = x\<rparr>]) filters (as_list ids)
      else filters)"

definition prepare_filters ::
  "str_or_list option \<Rightarrow> str_or_list option \<Rightarrow> str_or_list option \<Rightarrow> str_or_list option
     \<Rightarrow> filter_clause list" where
  "prepare_filters advertiser_ids campaign_ids insertion_order_ids line_item_ids =
     (let filters = [];
          filters = append_filters ''FILTER_ADVERTISER'' advertiser_ids filters;
          filters = append_filters ''FILTER_MEDIA_PLAN'' campaign_ids filters;
          filters = append_filters ''FILTER_INSERTION_ORDER'' insertion_order_ids filters;
          filters = append_filters ''FILTER_LINE_ITEM'' line_item_ids filters
      in filters)"

definition prepare_dimensions_and_metrics ::
  "str_or_list \<Rightarrow> str_or_list \<Rightarrow> string list \<times> string list" where
  "prepare_dimensions_and_metrics dimensions metrics = (as_list dimensions, as_list metrics)"

section \<open>Report File Decoder\<close>

subsection \<open>Cell type inference\<close>

text \<open>
  \<open>int(value)\<close> and \<open>float(value)\<close> are reached only with strings made of digits, at
  most one \<open>-\<close> and at most one \<open>.\<close> (the \<open>isdigit\<close> test comes first), so the forms
  they also accept elsewhere (surrounding white space, \<open>+\<close>, underscores, exponents,
  \<open>inf\<close>, \<open>nan\<close>) never arrive here and are answered \<open>None\<close>, the \<open>ValueError\<close>.
  On the strings that arrive, \<open>int\<close> accepts an optional leading \<open>-\<close> followed by at least
  one digit, and \<open>float\<close> an optional leading \<open>-\<close> followed by digits with at most
  one \<open>.\<close> among them and at least one digit. Python integers are unbounded (CPython's optional
  limit on the length of a converted string is not modelled). A float is represented by
  the exact decimal value of its literal, which CPython rounds to the nearest binary64.
\<close>

definition py_int :: "string \<Rightarrow> int option" where
  "py_int v =
     (case v of
        [] \<Rightarrow> None
      | c # r \<Rightarrow>
          if c = CHR ''-'' then (if py_isdigit r then Some (- int (digits_value r)) else None)
          else if py_isdigit v then Some (int (digits_value v)) else None)"

definition unsigned_decimal :: "string \<Rightarrow> rat option" where
  "unsigned_decimal r =
     (case py_split CHR ''.'' r of
        [a] \<Rightarrow> if py_isdigit a then Some (of_nat (digits_value a)) else None
      | [a, b] \<Rightarrow>
          if py_isdigit (a @ b) then Some (of_nat (digits_value (a @ b)) / 10 ^ length b)
          else None
      | _ \<Rightarrow> None)"

definition py_float :: "string \<Rightarrow> rat option" where
  "py_float v =
     (case v of
        [] \<Rightarrow> None
      | c # r \<Rightarrow>
          if c = CHR ''-'' then map_option uminus (unsigned_decimal r)
          else unsigned_decimal v)"

text \<open>
  What \<open>csv.DictReader\<close> puts into a row dictionary: a cell's text, \<open>None\<close> for a column
  the row has no cell for (\<open>restval\<close>), or the list of surplus cells (under \<open>restkey\<close>).
\<close>

datatype cell = CellNone | CellStr string | CellList "string list"

datatype json_value = JNull | JInt int | JFloat rat | JStr string

text \<open>
  The body of the inner loop of \<open>parse_csv_to_json\<close>:
  \<^verbatim>\<open>
    if value is None or value == '':
        parsed_row[key] = None
    elif value.replace('.', '', 1).replace('-', '', 1).isdigit():
        try:
            parsed_row[key] = int(value) if '.' not in value else float(value)
        except ValueError:
            parsed_row[key] = value
    else:
        parsed_row[key] = value
  \<close>
  A list has no method \<open>replace\<close>.
\<close>

fun convert_value :: "cell \<Rightarrow> py_exception + json_value" where
  "convert_value CellNone = Inr JNull"
| "convert_value (CellList l) =
     Inl (AttributeError (quoted ''list'' @ '' object has no attribute '' @ quoted ''replace''))"
| "convert_value (CellStr v) =
     (if v = [] then Inr JNull
      else if py_isdigit (remove1 CHR ''-'' (remove1 CHR ''.'' v)) then
        (if CHR ''.'' \<notin> set v
         then (case py_int v of Some n \<Rightarrow> Inr (JInt n) | None \<Rightarrow> Inr (JStr v))
         else (case py_float v of Some x \<Rightarrow> Inr (JFloat x) | None \<Rightarrow> Inr (JStr v)))
      else Inr (JStr v))"

type_synonym row_dict = "(string option \<times> cell) list"
type_synonym json_row = "(string option \<times> json_value) list"

text \<open>
  A Python dictionary is an association list in insertion order; \<open>d[k] = v\<close> is
  \<^const>\<open>AList.update\<close>, which replaces the value of a key already there and appends a
  new key. The key \<open>None\<close> is \<open>DictReader\<close>'s \<open>restkey\<close>.
\<close>

fun parse_row :: "row_dict \<Rightarrow> json_row \<Rightarrow> py_exception + json_row" where
  "parse_row [] parsed_row = Inr parsed_row"
| "parse_row ((k, v) # items) parsed_row =
     (case convert_value v of
        Inl e \<Rightarrow> Inl e
      | Inr x \<Rightarrow> parse_row items (AList.update k x parsed_row))"

fun parse_rows :: "row_dict list \<Rightarrow> json_row list \<Rightarrow> py_exception + json_row list" where
  "parse_rows [] data = Inr data"
| "parse_rows (row # rows) data =
     (case parse_row row [] of
        Inl e \<Rightarrow> Inl e
      | Inr parsed_row \<Rightarrow> parse_rows rows (data @ [parsed_row]))"

subsection \<open>The \<open>csv\<close> reader\<close>

text \<open>
  \<open>csv.DictReader(io.StringIO(csv_content))\<close> reads with the \<open>excel\<close> dialect:
  delimiter \<open>,\<close>, quote character \<open>"\<close> doubled inside a quoted field, no escape
  character, not strict. Iterating the \<open>StringIO\<close> yields the lines, each ending with its
  \<open>\n\<close> (the last one may lack it); no other character ends a line.
\<close>

fun py_lines :: "string \<Rightarrow> string list" where
  "py_lines [] = []"
| "py_lines (c # cs) =
     (if c = CHR 0x0A then [c] # py_lines cs
      else (case py_lines cs of [] \<Rightarrow> [[c]] | l # ls \<Rightarrow> (c # l) # ls))"

text \<open>The states of the reader that this dialect reaches.\<close>

datatype parser_state =
  START_RECORD | START_FIELD | IN_FIELD | IN_QUOTED_FIELD | QUOTE_IN_QUOTED_FIELD | EAT_CRNL

record reader =
  rd_state :: parser_state
  rd_fields :: "string list"
  rd_field :: string

definition parse_reset :: reader where
  "parse_reset = \<lparr>rd_state = START_RECORD, rd_fields = [], rd_field = []\<rparr>"

definition parse_save_field :: "reader \<Rightarrow> reader" where
  "parse_save_field r = r\<lparr>rd_fields := rd_fields r @ [rd_field r], rd_field := []\<rparr>"

definition field_limit :: nat where
  "field_limit = 131072"

definition parse_add_char :: "reader \<Rightarrow> char \<Rightarrow> py_exception + reader" where
  "parse_add_char r c =
     (if length (rd_field r) \<ge> field_limit
      then Inl (CsvError ''field larger than field limit (131072)'')
      else Inr (r\<lparr>rd_field := rd_field r @ [c]\<rparr>))"

definition set_state :: "parser_state \<Rightarrow> py_exception + reader \<Rightarrow> py_exception + reader" where
  "set_state s x = (case x of Inl e \<Rightarrow> Inl e | Inr r \<Rightarrow> Inr (r\<lparr>rd_state := s\<rparr>))"

definition is_newline :: "char \<Rightarrow> bool" where
  "is_newline c = (c = CHR 0x0A \<or> c = CHR 0x0D)"

text \<open>A record ends at a line break or at the end of the line (\<open>None\<close>).\<close>

definition end_state :: "char option \<Rightarrow> parser_state" where
  "end_state c = (if c = None then START_RECORD else EAT_CRNL)"

text \<open>The case \<open>START_FIELD\<close>, which \<open>START_RECORD\<close> falls through to on a character that
  is no line break.\<close>

fun start_field :: "reader \<Rightarrow> char option \<Rightarrow> py_exception + reader" where
  "start_field r None = Inr ((parse_save_field r)\<lparr>rd_state := START_RECORD\<rparr>)"
| "start_field r (Some c) =
     (if is_newline c then Inr ((parse_save_field r)\<lparr>rd_state := EAT_CRNL\<rparr>)
      else if c = CHR 0x22 then Inr (r\<lparr>rd_state := IN_QUOTED_FIELD\<rparr>)
      else if c = CHR '','' then Inr ((parse_save_field r)\<lparr>rd_state := START_FIELD\<rparr>)
      else set_state IN_FIELD (parse_add_char r c))"

text \<open>One step of the reader on a character, or on the end of the line (\<open>None\<close>).\<close>

fun parse_process_char :: "reader \<Rightarrow> char option \<Rightarrow> py_exception + reader" where
  "parse_process_char r c =
     (case rd_state r of
        START_RECORD \<Rightarrow>
          (case c of
             None \<Rightarrow> Inr r
           | Some ch \<Rightarrow> if is_newline ch then Inr (r\<lparr>rd_state := EAT_CRNL\<rparr>) else start_field r c)
      | START_FIELD \<Rightarrow> start_field r c
      | IN_FIELD \<Rightarrow>
          (case c of
             None \<Rightarrow> Inr ((parse_save_field r)\<lparr>rd_state := START_RECORD\<rparr>)
           | Some ch \<Rightarrow>
               if is_newline ch then Inr ((parse_save_field r)\<lparr>rd_state := EAT_CRNL\<rparr>)
               else if ch = CHR '','' then Inr ((parse_save_field r)\<lparr>rd_state := START_FIELD\<rparr>)
               else parse_add_char r ch)
      | IN_QUOTED_FIELD \<Rightarrow>
          (case c of
             None \<Rightarrow> Inr r
           | Some ch \<Rightarrow>
               if ch = CHR 0x22 then Inr (r\<lparr>rd_state := QUOTE_IN_QUOTED_FIELD\<rparr>)
               else parse_add_char r ch)
      | QUOTE_IN_QUOTED_FIELD \<Rightarrow>
          (case c of
             None \<Rightarrow> Inr ((parse_save_field r)\<lparr>rd_state := START_RECORD\<rparr>)
           | Some ch \<Rightarrow>
               if ch = CHR 0x22 then set_state IN_QUOTED_FIELD (parse_add_char r ch)
               else if ch = CHR '','' then Inr ((parse_save_field r)\<lparr>rd_state := START_FIELD\<rparr>)
               else if is_newline ch then Inr ((parse_save_field r)\<lparr>rd_state := EAT_CRNL\<rparr>)
               else set_state IN_FIELD (parse_add_char r ch))
      | EAT_CRNL \<Rightarrow>
          (case c of
             None \<Rightarrow> Inr (r\<lparr>rd_state := START_RECORD\<rparr>)
           | Some ch \<Rightarrow>
               if is_newline ch then Inr r
               else Inl (CsvError (''new-line character seen in unquoted field - do you need to open the file with newline='' @ quoted [] @ ''?''))))"

text \<open>The characters of one line, then its end.\<close>

fun process_line :: "reader \<Rightarrow> string \<Rightarrow> py_exception + reader" where
  "process_line r [] = parse_process_char r None"
| "process_line r (c # cs) =
     (case parse_process_char r (Some c) of
        Inl e \<Rightarrow> Inl e
      | Inr r' \<Rightarrow> process_line r' cs)"

text \<open>
  All records of the remaining lines, in order, and the error that ends the iteration if
  there is one: the rows before it have been handed out by then. A record is complete when
  the reader is back in \<open>START_RECORD\<close> at the end of a line; a quoted field goes on
  into the next line. At the end of the input an unfinished record is handed out as it is.
\<close>

fun read_records :: "reader \<Rightarrow> string list \<Rightarrow> string list list \<times> py_exception option" where
  "read_records r [] =
     (if rd_field r \<noteq> [] \<or> rd_state r = IN_QUOTED_FIELD
      then ([rd_fields (parse_save_field r)], None)
      else ([], None))"
| "read_records r (l # ls) =
     (case process_line r l of
        Inl e \<Rightarrow> ([], Some e)
      | Inr r' \<Rightarrow>
          if rd_state r' \<noteq> START_RECORD then read_records r' ls
          else (case read_records parse_reset ls of (rows, err) \<Rightarrow> (rd_fields r' # rows, err)))"

definition csv_reader :: "string \<Rightarrow> string list list \<times> py_exception option" where
  "csv_reader content = read_records parse_reset (py_lines content)"

subsection \<open>\<open>csv.DictReader\<close>\<close>

text \<open>\<open>dict(pairs)\<close>: a later pair replaces the value of an earlier one with the same key.\<close>

definition dict_of :: "('k \<times> 'v) list \<Rightarrow> ('k \<times> 'v) list" where
  "dict_of ps = foldl (\<lambda>d (k, v). AList.update k v d) [] ps"

text \<open>
  \<open>DictReader.__next__\<close>, with \<open>restkey\<close> and \<open>restval\<close> both \<open>None\<close>:
  \<^verbatim>\<open>
    d = dict(zip(self.fieldnames, row))
    lf = len(self.fieldnames)
    lr = len(row)
    if lf < lr:
        d[self.restkey] = row[lf:]
    elif lf > lr:
        for key in self.fieldnames[lr:]:
            d[key] = self.restval
  \<close>
\<close>

definition dict_row :: "string list \<Rightarrow> string list \<Rightarrow> row_dict" where
  "dict_row fieldnames row =
     (let d = dict_of (zip (map Some fieldnames) (map CellStr row));
          lf = length fieldnames;
          lr = length row
      in if lf < lr then AList.update None (CellList (drop lf row)) d
         else if lf > lr
         then foldl (\<lambda>d k. AList.update (Some k) CellNone d) d (drop lr fieldnames)
         else d)"

text \<open>The first record is the header; empty records after it (blank lines) are skipped.\<close>

definition dict_reader ::
  "string list list \<times> py_exception option \<Rightarrow> row_dict list \<times> py_exception option" where
  "dict_reader r =
     (case fst r of
        [] \<Rightarrow> ([], snd r)
      | fieldnames # rows \<Rightarrow>
          (map (dict_row fieldnames) (filter (\<lambda>row. row \<noteq> []) rows), snd r))"

section \<open>Report Orchestrator: \<open>dv_run_report\<close>\<close>

subsection \<open>Requests, responses and the remote system\<close>

text \<open>
  The body of \<open>queries().create\<close>, a nested dictionary with fixed keys; a field is named
  by its path.
\<close>

record query_obj =
  metadata_title :: string
  metadata_dataRange_range :: string
  metadata_dataRange_customStartDate :: api_date
  metadata_dataRange_customEndDate :: api_date
  metadata_format :: string
  params_type :: string
  params_groupBys :: "string list"
  params_filters :: "filter_clause list"
  params_metrics :: "string list"
  schedule_frequency :: string

text \<open>
  The responses are dictionaries decoded from JSON. The code reads the keys below; a key
  the response lacks is \<open>None\<close> here and a \<open>KeyError\<close> where the code subscripts it.
  The values read are strings in the remote API's schema.
\<close>

record query_response =
  queryId :: "string option"

record report_status =
  status_state :: "string option"
  status_message :: "string option"

record report_metadata =
  metadata_status :: "report_status option"
  metadata_googleCloudStoragePath :: "string option"

record report_key =
  key_reportId :: "string option"

record report_response =
  response_key :: "report_key option"
  response_metadata :: "report_metadata option"

text \<open>
  What one call of the tool can observe of its collaborators: whether \<open>get_service()\<close>
  raises, and what \<open>queries().create(body).execute()\<close>,
  \<open>queries().run(queryId, synchronous=True).execute()\<close> and
  \<open>urlopen(path).read().decode('utf-8')\<close> answer or raise. Each is used at most once
  per call, so a function of the argument is a full description.
\<close>

record remote =
  get_service :: "py_exception option"
  queries_create :: "query_obj \<Rightarrow> py_exception + query_response"
  queries_run :: "string \<Rightarrow> py_exception + report_response"
  urlopen_read :: "string \<Rightarrow> py_exception + string"

text \<open>The effects of a call, in the order they happen: log records and remote operations.\<close>

datatype log_level = INFO | WARNING | ERROR

datatype event =
    Log log_level string
  | QueriesCreate query_obj
  | QueriesRun string
  | Urlopen string

text \<open>A computation: the events it caused, and the exception it raised or its value.\<close>

type_synonym 'a comp = "event list \<times> (py_exception + 'a)"

text \<open>Sequencing: an exception ends the computation, the events so far are kept.\<close>

definition then_do :: "'a comp \<Rightarrow> ('a \<Rightarrow> 'b comp) \<Rightarrow> 'b comp" where
  "then_do m f =
     (case m of
        (ev, Inl e) \<Rightarrow> (ev, Inl e)
      | (ev, Inr x) \<Rightarrow> (case f x of (ev', r) \<Rightarrow> (ev @ ev', r)))"

definition pure :: "py_exception + 'a \<Rightarrow> 'a comp" where
  "pure r = ([], r)"

definition logger :: "log_level \<Rightarrow> string \<Rightarrow> unit comp" where
  "logger level msg = ([Log level msg], Inr ())"

text \<open>\<open>d[k]\<close> on a response.\<close>

fun subscript :: "'a option \<Rightarrow> string \<Rightarrow> 'a comp" where
  "subscript None k = ([], Inl (KeyError k))"
| "subscript (Some v) k = ([], Inr v)"

subsection \<open>Download and decoding\<close>

definition download_csv_from_gcs :: "remote \<Rightarrow> string \<Rightarrow> string comp" where
  "download_csv_from_gcs env gcs_path =
     then_do (logger INFO (''Downloading report from: '' @ gcs_path)) (\<lambda>_.
     then_do ([Urlopen gcs_path], urlopen_read env gcs_path) (\<lambda>content.
     then_do (logger INFO (''Report downloaded successfully ('' @ digits_of (length content) @ '' bytes)'')) (\<lambda>_.
     pure (Inr content))))"

text \<open>
  The rows are decoded one by one as the reader hands them out, so an exception of the
  conversion in an earlier row comes before an error of the reader in a later line.
\<close>

definition parse_csv_to_json :: "string \<Rightarrow> json_row list comp" where
  "parse_csv_to_json csv_content =
     (case dict_reader (csv_reader csv_content) of (rows, err) \<Rightarrow>
        then_do (pure (parse_rows rows [])) (\<lambda>data.
        then_do (pure (case err of Some e \<Rightarrow> Inl e | None \<Rightarrow> Inr ())) (\<lambda>_.
        then_do (logger INFO (''Parsed '' @ digits_of (length data) @ '' rows from CSV'')) (\<lambda>_.
        pure (Inr data)))))"

subsection \<open>The tool\<close>

record report_args =
  start_date :: string
  end_date :: string
  dimensions :: str_or_list
  metrics :: str_or_list
  advertiser_ids :: "str_or_list option"
  campaign_ids :: "str_or_list option"
  insertion_order_ids :: "str_or_list option"
  line_item_ids :: "str_or_list option"
  report_name :: string

text \<open>The \<open>metadata\<close> dictionary of a successful result.\<close>

record result_metadata =
  query_id :: string
  report_id :: string
  date_range_start_date :: string
  date_range_end_date :: string
  result_dimensions :: "string list"
  result_metrics :: "string list"
  result_filters :: "filter_clause list"
  row_count :: nat

text \<open>
  The three dictionaries the tool returns: \<open>{"success": True, "data", "metadata"}\<close>,
  \<open>{"success": False, "error", "query_id"}\<close> and \<open>{"success": False, "error"}\<close>.
\<close>

datatype tool_result =
    Succeeded "json_row list" result_metadata
  | Failed string "string option"


definition build_query ::
  "string \<Rightarrow> api_date \<Rightarrow> api_date \<Rightarrow> string list \<Rightarrow> filter_clause list \<Rightarrow> string list
     \<Rightarrow> query_obj" where
  "build_query name start_date_dict end_date_dict dimensions_list filters metrics_list =
     \<lparr>metadata_title = name,
      metadata_dataRange_range = ''CUSTOM_DATES'',
      metadata_dataRange_customStartDate = start_date_dict,
      metadata_dataRange_customEndDate = end_date_dict,
      metadata_format = ''CSV'',
      params_type = ''STANDARD'',
      params_groupBys = dimensions_list,
      params_filters = filters,
      params_metrics = metrics_list,
      schedule_frequency = ''ONE_TIME''\<rparr>"

text \<open>From the status check to the returned dictionary (the code after \<open>queries().run\<close>).\<close>

definition report_result ::
  "remote \<Rightarrow> report_args \<Rightarrow> string list \<Rightarrow> string list \<Rightarrow> filter_clause list \<Rightarrow> string
     \<Rightarrow> report_response \<Rightarrow> tool_result comp" where
  "report_result env a dimensions_list metrics_list filters qid report_response =
     then_do (subscript (response_metadata report_response) ''metadata'') (\<lambda>md.
     then_do (subscript (metadata_status md) ''status'') (\<lambda>st.
     then_do (subscript (status_state st) ''state'') (\<lambda>s.
       if s = ''FAILED'' then
         (let error_msg = (case status_message st of Some m \<Rightarrow> m | None \<Rightarrow> ''Unknown error'') in
          then_do (logger ERROR (''Report failed: '' @ error_msg)) (\<lambda>_.
          pure (Inr (Failed (''Report generation failed: '' @ error_msg) (Some qid)))))
       else
         then_do (subscript (response_key report_response) ''key'') (\<lambda>k.
         then_do (subscript (key_reportId k) ''reportId'') (\<lambda>rid.
         then_do (logger INFO (''Report '' @ rid @ '' generated successfully'')) (\<lambda>_.
         then_do (subscript (metadata_googleCloudStoragePath md) ''googleCloudStoragePath'') (\<lambda>gcs_path.
         then_do (download_csv_from_gcs env gcs_path) (\<lambda>csv_content.
         then_do (parse_csv_to_json csv_content) (\<lambda>parsed_data.
         pure (Inr (Succeeded parsed_data
           \<lparr>query_id = qid,
            report_id = rid,
            date_range_start_date = start_date a,
            date_range_end_date = end_date a,
            result_dimensions = dimensions_list,
            result_metrics = metrics_list,
            result_filters = filters,
            row_count = length parsed_data\<rparr>)))))))))))"

text \<open>The body of the \<open>try\<close> statement.\<close>

definition report_try :: "remote \<Rightarrow> report_args \<Rightarrow> tool_result comp" where
  "report_try env a =
     then_do (pure (case get_service env of Some e \<Rightarrow> Inl e | None \<Rightarrow> Inr ())) (\<lambda>_.
     then_do (pure (format_date_for_api (start_date a))) (\<lambda>start_date_dict.
     then_do (pure (format_date_for_api (end_date a))) (\<lambda>end_date_dict.
       (case prepare_dimensions_and_metrics (dimensions a) (metrics a) of
          (dimensions_list, metrics_list) \<Rightarrow>
       (let filters = prepare_filters (advertiser_ids a) (campaign_ids a)
                        (insertion_order_ids a) (line_item_ids a) in
        then_do (if filters = []
                 then logger WARNING ''No filters specified. Report will include all data (may be very large).''
                 else pure (Inr ())) (\<lambda>_.
        (let query = build_query (report_name a) start_date_dict end_date_dict
                       dimensions_list filters metrics_list in
         then_do (logger INFO (''Creating query: '' @ report_name a)) (\<lambda>_.
         then_do ([QueriesCreate query], queries_create env query) (\<lambda>query_response.
         then_do (subscript (queryId query_response) ''queryId'') (\<lambda>qid.
         then_do (logger INFO (''Query '' @ qid @ '' created. Running synchronously...'')) (\<lambda>_.
         then_do ([QueriesRun qid], queries_run env qid) (\<lambda>report_response.
         report_result env a dimensions_list metrics_list filters qid report_response
         ))))))))))))"

text \<open>
  The tool: the \<open>try\<close> body under \<open>except Exception as e\<close>. The result type keeps a place
  for an exception that would leave the tool.
\<close>

definition dv_run_report :: "remote \<Rightarrow> report_args \<Rightarrow> tool_result comp" where
  "dv_run_report env a =
     (case report_try env a of
        (ev, Inr r) \<Rightarrow> (ev, Inr r)
      | (ev, Inl e) \<Rightarrow>
          (ev @ [Log ERROR (''Error running report: '' @ exception_str e)],
           Inr (Failed (exception_str e) None)))"

section \<open>Entity list tools: the request parameters\<close>

datatype param = PStr string | PInt int

text \<open>\<open>if v: params[k] = v\<close> for an optional string.\<close>

fun set_if_given :: "string \<Rightarrow> string option \<Rightarrow> (string \<times> param) list \<Rightarrow> (string \<times> param) list" where
  "set_if_given k None params = params"
| "set_if_given k (Some v) params = (if v \<noteq> [] then AList.update k (PStr v) params else params)"

text \<open>
  The keyword arguments each list tool passes to the remote \<open>list\<close> call. For
  \<open>dv_list_advertisers\<close> the partner is the argument or else \<open>DEFAULT_PARTNER_ID\<close>; with
  neither the tool answers without a request (\<open>None\<close>).
\<close>

definition dv_list_advertisers_params ::
  "string option \<Rightarrow> string option \<Rightarrow> int \<Rightarrow> string option \<Rightarrow> (string \<times> param) list option" where
  "dv_list_advertisers_params DEFAULT_PARTNER_ID partner_id page_size order_by =
     (case (case partner_id of None \<Rightarrow> DEFAULT_PARTNER_ID | Some p \<Rightarrow> Some p) of
        None \<Rightarrow> None
      | Some p \<Rightarrow>
          Some (set_if_given ''orderBy'' order_by
                  [(''partnerId'', PStr p), (''pageSize'', PInt (min page_size 100))]))"

definition advertiser_list_params ::
  "string \<Rightarrow> int \<Rightarrow> string option \<Rightarrow> string option \<Rightarrow> (string \<times> param) list" where
  "advertiser_list_params advertiser_id page_size filter_expr order_by =
     set_if_given ''orderBy'' order_by
       (set_if_given ''filter'' filter_expr
          [(''advertiserId'', PStr advertiser_id), (''pageSize'', PInt (min page_size 100))])"

definition dv_list_campaigns_params ::
  "string \<Rightarrow> int \<Rightarrow> string option \<Rightarrow> string option \<Rightarrow> (string \<times> param) list" where
  "dv_list_campaigns_params = advertiser_list_params"

definition dv_list_insertion_orders_params ::
  "string \<Rightarrow> int \<Rightarrow> string option \<Rightarrow> string option \<Rightarrow> (string \<times> param) list" where
  "dv_list_insertion_orders_params = advertiser_list_params"

definition dv_list_line_items_params ::
  "string \<Rightarrow> int \<Rightarrow> string option \<Rightarrow> string option \<Rightarrow> (string \<times> param) list" where
  "dv_list_line_items_params = advertiser_list_params"

definition dv_list_creatives_params ::
  "string \<Rightarrow> int \<Rightarrow> string option \<Rightarrow> string option \<Rightarrow> (string \<times> param) list" where
  "dv_list_creatives_params = advertiser_list_params"

section \<open>Notions used to state the properties\<close>

subsection \<open>The specification's words on cells and records\<close>

text \<open>
  The integer pattern of the specification: an optional leading minus, then digits only
  (at least one).
\<close>

definition integer_pattern :: "string \<Rightarrow> bool" where
  "integer_pattern s =
     (case s of [] \<Rightarrow> False | c # r \<Rightarrow> if c = CHR ''-'' then py_isdigit r else py_isdigit s)"

text \<open>The integer such a string denotes in decimal notation.\<close>

definition integer_value :: "string \<Rightarrow> int" where
  "integer_value s =
     (case s of [] \<Rightarrow> 0 | c # r \<Rightarrow> if c = CHR ''-'' then - int (digits_value r) else int (digits_value s))"

text \<open>
  The decimal pattern of the specification: an optional minus, digits, at most one dot.
  Nothing but these characters, at least one digit, at most one minus and at most one dot.
\<close>

definition decimal_pattern :: "string \<Rightarrow> bool" where
  "decimal_pattern s =
     (list_all (\<lambda>c. is_digit c \<or> c = CHR ''-'' \<or> c = CHR ''.'') s
      \<and> list_ex is_digit s
      \<and> count_list s CHR ''-'' \<le> 1
      \<and> count_list s CHR ''.'' \<le> 1)"

text \<open>The value the specification gives a cell, by the two patterns.\<close>

definition infer :: "string \<Rightarrow> json_value" where
  "infer s =
     (if s = [] then JNull
      else if integer_pattern s then JInt (integer_value s)
      else if decimal_pattern s
           then (case py_float s of Some x \<Rightarrow> JFloat x | None \<Rightarrow> JStr s)
      else JStr s)"

text \<open>The same for what a row dictionary holds: a missing cell is null (the surplus list
  of a long row never belongs to a column).\<close>

fun cell_json :: "cell \<Rightarrow> json_value" where
  "cell_json CellNone = JNull"
| "cell_json (CellStr s) = infer s"
| "cell_json (CellList l) = JNull"

text \<open>
  The record of a data row under a header: each column name with the value of the row's
  cell in that column, null where the row has no cell for it.
\<close>

definition record_of :: "string list \<Rightarrow> string list \<Rightarrow> json_row" where
  "record_of header row =
     zip (map Some header) (map infer row @ replicate (length header - length row) JNull)"

subsection \<open>The effects of a call\<close>

text \<open>A computation that comes after some events.\<close>

definition prepend :: "event list \<Rightarrow> 'a comp \<Rightarrow> 'a comp" where
  "prepend evs m = (evs @ fst m, snd m)"

text \<open>The remote operations among the effects of a call, and the submissions among them.\<close>

fun is_remote_op :: "event \<Rightarrow> bool" where
  "is_remote_op (Log level msg) = False"
| "is_remote_op (QueriesCreate q) = True"
| "is_remote_op (QueriesRun qid) = True"
| "is_remote_op (Urlopen p) = True"

definition remote_ops :: "event list \<Rightarrow> event list" where
  "remote_ops evs = filter is_remote_op evs"

fun is_create :: "event \<Rightarrow> bool" where
  "is_create (QueriesCreate q) = True"
| "is_create ev = False"

fun is_run :: "event \<Rightarrow> bool" where
  "is_run (QueriesRun qid) = True"
| "is_run ev = False"

fun is_download :: "event \<Rightarrow> bool" where
  "is_download (Urlopen p) = True"
| "is_download ev = False"

text \<open>The caution logged when no filter clause was built.\<close>

definition no_filter_caution :: event where
  "no_filter_caution =
     Log WARNING ''No filters specified. Report will include all data (may be very large).''"

text \<open>Preparation succeeds: the service is there and both dates are formatted.\<close>

definition prepared :: "remote \<Rightarrow> report_args \<Rightarrow> bool" where
  "prepared env a =
     (get_service env = None
      \<and> \<not> isl (format_date_for_api (start_date a))
      \<and> \<not> isl (format_date_for_api (end_date a)))"

text \<open>The query a call submits once its dates are formatted.\<close>

definition submitted_query :: "report_args \<Rightarrow> api_date \<Rightarrow> api_date \<Rightarrow> query_obj" where
  "submitted_query a start_date_dict end_date_dict =
     build_query (report_name a) start_date_dict end_date_dict
       (as_list (dimensions a))
       (prepare_filters (advertiser_ids a) (campaign_ids a) (insertion_order_ids a) (line_item_ids a))
       (as_list (metrics a))"

subsection \<open>The scenarios of the specification\<close>

text \<open>
  Scenario A: one advertiser, one dimension and one metric, and a remote system that
  creates the query, finishes the run and serves a CSV file of two rows.
\<close>

definition scenario_args :: report_args where
  "scenario_args =
     \<lparr>start_date = ''2025-01-01'', end_date = ''2025-01-31'',
      dimensions = StrList [''FILTER_DATE''], metrics = StrList [''METRIC_IMPRESSIONS''],
      advertiser_ids = Some (Str ''123''), campaign_ids = None,
      insertion_order_ids = None, line_item_ids = None,
      report_name = ''MCP Report''\<rparr>"

definition done_response :: report_response where
  "done_response =
     \<lparr>response_key = Some \<lparr>key_reportId = Some ''r1''\<rparr>,
      response_metadata = Some
        \<lparr>metadata_status = Some \<lparr>status_state = Some ''DONE'', status_message = None\<rparr>,
         metadata_googleCloudStoragePath = Some ''https://storage.example/report.csv''\<rparr>\<rparr>"

definition scenario_csv :: string where
  "scenario_csv = ''date,impressions\<newline>2025-01-01,100\<newline>2025-01-02,200''"

definition succeeding_remote :: remote where
  "succeeding_remote =
     \<lparr>get_service = None,
      queries_create = (\<lambda>q. Inr \<lparr>queryId = Some ''q1''\<rparr>),
      queries_run = (\<lambda>qid. Inr done_response),
      urlopen_read = (\<lambda>p. Inr scenario_csv)\<rparr>"

text \<open>Scenario B: the run ends in the failure state, with a message or without one.\<close>

definition failed_response :: "string option \<Rightarrow> report_response" where
  "failed_response msg =
     \<lparr>response_key = None,
      response_metadata = Some
        \<lparr>metadata_status = Some \<lparr>status_state = Some ''FAILED'', status_message = msg\<rparr>,
         metadata_googleCloudStoragePath = None\<rparr>\<rparr>"

definition failing_remote :: "string option \<Rightarrow> remote" where
  "failing_remote msg = succeeding_remote\<lparr>queries_run := (\<lambda>qid. Inr (failed_response msg))\<rparr>"

text \<open>Scenario C: the arguments of scenario A without any identifier.\<close>

definition unfiltered_args :: report_args where
  "unfiltered_args = scenario_args\<lparr>advertiser_ids := None\<rparr>"

text \<open>A start date that is no \<open>YYYY-MM-DD\<close> string, and a remote system whose download fails.\<close>

definition bad_date_args :: report_args where
  "bad_date_args = scenario_args\<lparr>start_date := ''2025/01/01''\<rparr>"

definition broken_download_remote :: remote where
  "broken_download_remote = succeeding_remote\<lparr>urlopen_read := (\<lambda>p. Inl (Raised ''HTTP Error 403: Forbidden''))\<rparr>"

text \<open>A report file whose only data row has more cells than the header has columns.\<close>

definition ragged_csv :: string where
  "ragged_csv = ''a\<newline>1,2''"


section \<open>Properties\<close>

subsection \<open>Splitting strings\<close>

lemma py_split_nonempty: "py_split sep s \<noteq> []"
  by (induction s) (auto split: list.splits)

lemma py_split_length: "length (py_split sep s) = Suc (count_list s sep)"
  by (induction s) (auto split: list.splits simp: py_split_nonempty)

lemma py_join_split: "py_join sep (py_split sep s) = s"
proof (induction s)
  case Nil show ?case by simp
next
  case (Cons c cs)
  show ?case
  proof (cases "py_split sep cs")
    case Nil then show ?thesis using py_split_nonempty by blast
  next
    case (Cons w ws)
    with Cons.IH show ?thesis by (cases ws) auto
  qed
qed

lemma py_split_no_sep: "p \<in> set (py_split sep s) \<Longrightarrow> sep \<notin> set p"
  by (induction s arbitrary: p) (auto split: list.splits if_splits)

lemma py_split_none: "sep \<notin> set s \<Longrightarrow> py_split sep s = [s]"
  by (induction s) auto

lemma py_split_one:
  "count_list s sep = 1 \<Longrightarrow> \<exists>a b. py_split sep s = [a, b] \<and> s = a @ sep # b \<and> sep \<notin> set a \<and> sep \<notin> set b"
proof (induction s)
  case Nil then show ?case by simp
next
  case (Cons c cs)
  show ?case
  proof (cases "c = sep")
    case True
    with Cons.prems have "sep \<notin> set cs" by (simp add: count_list_0_iff)
    with True show ?thesis by (simp add: py_split_none)
  next
    case False
    with Cons.prems have "count_list cs sep = 1" by simp
    from Cons.IH [OF this] obtain a b where
      "py_split sep cs = [a, b]" "cs = a @ sep # b" "sep \<notin> set a" "sep \<notin> set b" by blast
    with False show ?thesis by auto
  qed
qed

subsection \<open>Date Formatter\<close>

lemma length_three: "length xs = 3 \<longleftrightarrow> (\<exists>a b c. xs = [a, b, c])"
  by (auto simp: length_Suc_conv numeral_3_eq_3)

lemma format_date_ok_iff:
  "(\<exists>d. format_date_for_api s = Inr d) \<longleftrightarrow> length (py_split CHR ''-'' s) = 3"
  unfolding format_date_for_api_def length_three
  by (auto split: list.splits)

lemma format_date_parts:
  "format_date_for_api s = Inr d \<Longrightarrow> py_split CHR ''-'' s = [year d, month d, day d]"
  unfolding format_date_for_api_def by (auto split: list.splits)

text \<open>
  Claim C5. \<open>format_date_for_api\<close> succeeds exactly when the string splits on the hyphen
  into three pieces, that is, when it holds exactly two hyphens. On success the record holds
  the three pieces unchanged (no number is parsed, no calendar is consulted); on every other
  string the unpacking raises.
\<close>

theorem format_date_for_api_three_components:
  "((\<exists>d. format_date_for_api s = Inr d) \<longleftrightarrow> length (py_split CHR ''-'' s) = 3)
   \<and> (length (py_split CHR ''-'' s) = 3 \<longleftrightarrow> count_list s CHR ''-'' = 2)
   \<and> (\<forall>d. format_date_for_api s = Inr d \<longrightarrow>
          py_split CHR ''-'' s = [year d, month d, day d]
          \<and> s = year d @ ''-'' @ month d @ ''-'' @ day d
          \<and> CHR ''-'' \<notin> set (year d) \<and> CHR ''-'' \<notin> set (month d) \<and> CHR ''-'' \<notin> set (day d))
   \<and> (length (py_split CHR ''-'' s) \<noteq> 3 \<longrightarrow>
          format_date_for_api s = Inl (unpack_error (length (py_split CHR ''-'' s))))"
proof (intro conjI allI impI)
  show "(\<exists>d. format_date_for_api s = Inr d) \<longleftrightarrow> length (py_split CHR ''-'' s) = 3"
    by (rule format_date_ok_iff)
  show "length (py_split CHR ''-'' s) = 3 \<longleftrightarrow> count_list s CHR ''-'' = 2"
    by (simp add: py_split_length)
next
  fix d assume ok: "format_date_for_api s = Inr d"
  then show parts: "py_split CHR ''-'' s = [year d, month d, day d]"
    by (rule format_date_parts)
  from py_join_split [of "CHR ''-''" s] parts
  show "s = year d @ ''-'' @ month d @ ''-'' @ day d" by simp
  from parts py_split_no_sep [of _ "CHR ''-''" s]
  show "CHR ''-'' \<notin> set (year d)" "CHR ''-'' \<notin> set (month d)" "CHR ''-'' \<notin> set (day d)"
    by simp_all
next
  assume "length (py_split CHR ''-'' s) \<noteq> 3"
  then show "format_date_for_api s = Inl (unpack_error (length (py_split CHR ''-'' s)))"
    unfolding format_date_for_api_def by (auto split: list.splits)
qed

text \<open>The theorem at a well-formed date, at a string without hyphens and at an impossible
  calendar date.\<close>

theorem format_date_for_api_three_components_witness:
  "format_date_for_api ''2025-01-31'' = Inr \<lparr>year = ''2025'', month = ''01'', day = ''31''\<rparr>
   \<and> count_list ''2025-01-31'' CHR ''-'' = 2
   \<and> ''2025-01-31'' = ''2025'' @ ''-'' @ ''01'' @ ''-'' @ ''31''
   \<and> count_list ''2025/01/31'' CHR ''-'' = 0
   \<and> format_date_for_api ''2025/01/31'' = Inl (unpack_error 1)
   \<and> format_date_for_api ''2025-13-99'' = Inr \<lparr>year = ''2025'', month = ''13'', day = ''99''\<rparr>"
  using format_date_for_api_three_components [of "''2025-01-31''"]
    format_date_for_api_three_components [of "''2025/01/31''"]
  by (simp add: format_date_for_api_def)

subsection \<open>Cell type inference\<close>

lemma not_digit_minus: "\<not> is_digit CHR ''-''" by (simp add: is_digit_def)
lemma not_digit_dot: "\<not> is_digit CHR ''.''" by (simp add: is_digit_def)

lemma list_all_remove1:
  "\<not> P x \<Longrightarrow> list_all P (remove1 x xs) \<longleftrightarrow> (list_all (\<lambda>y. P y \<or> y = x) xs \<and> count_list xs x \<le> 1)"
  by (induction xs) (auto simp: list_all_iff count_list_0_iff)

lemma count_list_remove1_other:
  "x \<noteq> y \<Longrightarrow> count_list (remove1 x xs) y = count_list xs y"
  by (induction xs) auto

lemma list_all_nonempty_ex: "list_all P t \<Longrightarrow> t \<noteq> [] \<longleftrightarrow> list_ex P t"
  by (cases t) auto

lemma list_ex_remove1_other:
  "\<not> P x \<Longrightarrow> list_ex P (remove1 x xs) = list_ex P xs"
  by (induction xs) auto

lemma isdigit_test_iff:
  "py_isdigit (remove1 CHR ''-'' (remove1 CHR ''.'' s)) \<longleftrightarrow> decimal_pattern s"
proof -
  let ?t = "remove1 CHR ''.'' s"
  have a: "list_all is_digit (remove1 CHR ''-'' ?t)
       \<longleftrightarrow> list_all (\<lambda>y. is_digit y \<or> y = CHR ''-'') ?t \<and> count_list ?t CHR ''-'' \<le> 1"
    using not_digit_minus by (rule list_all_remove1 [where P = is_digit])
  have b: "list_all (\<lambda>y. is_digit y \<or> y = CHR ''-'') ?t
       \<longleftrightarrow> list_all (\<lambda>y. (is_digit y \<or> y = CHR ''-'') \<or> y = CHR ''.'') s \<and> count_list s CHR ''.'' \<le> 1"
    by (rule list_all_remove1 [where P = "\<lambda>y. is_digit y \<or> y = CHR ''-''"]) (simp add: not_digit_dot)
  have c: "count_list ?t CHR ''-'' = count_list s CHR ''-''"
    by (rule count_list_remove1_other) simp
  have d: "list_ex is_digit (remove1 CHR ''-'' ?t) = list_ex is_digit s"
    using list_ex_remove1_other [where P = is_digit, OF not_digit_minus, of ?t]
      list_ex_remove1_other [where P = is_digit, OF not_digit_dot, of s] by simp
  show ?thesis
    unfolding py_isdigit_def decimal_pattern_def
    using a b c d list_all_nonempty_ex [of is_digit "remove1 CHR ''-'' ?t"]
    by (auto simp: disj_commute disj_left_commute)
qed

lemma integer_pattern_no_dot: "integer_pattern s \<Longrightarrow> CHR ''.'' \<notin> set s"
  unfolding integer_pattern_def py_isdigit_def
  by (cases s) (auto simp: list_all_iff not_digit_dot split: if_splits)

lemma digits_count: "list_all is_digit l \<Longrightarrow> \<not> is_digit c \<Longrightarrow> count_list l c = 0"
  by (induction l) auto

lemma digits_decimal: "py_isdigit l \<Longrightarrow> decimal_pattern l"
  unfolding py_isdigit_def decimal_pattern_def
  using digits_count [of l "CHR ''-''"] digits_count [of l "CHR ''.''"]
    list_all_nonempty_ex [of is_digit l]
  by (auto simp: not_digit_dot not_digit_minus list_all_iff)

lemma integer_pattern_decimal: "integer_pattern s \<Longrightarrow> decimal_pattern s"
proof (cases s)
  case Nil
  assume "integer_pattern s" with Nil show ?thesis by (simp add: integer_pattern_def)
next
  case (Cons c r)
  assume ip: "integer_pattern s"
  show ?thesis
  proof (cases "c = CHR ''-''")
    case True
    with ip Cons have "py_isdigit r" by (simp add: integer_pattern_def)
    then have "decimal_pattern r" by (rule digits_decimal)
    moreover from \<open>py_isdigit r\<close> have "count_list r CHR ''-'' = 0"
      using digits_count [of r "CHR ''-''"] by (simp add: py_isdigit_def not_digit_minus)
    ultimately show ?thesis using Cons True by (simp add: decimal_pattern_def)
  next
    case False
    with ip Cons have "py_isdigit s" by (simp add: integer_pattern_def)
    then show ?thesis by (rule digits_decimal)
  qed
qed

lemma py_int_integer: "integer_pattern s \<Longrightarrow> py_int s = Some (integer_value s)"
  unfolding integer_pattern_def py_int_def integer_value_def
  by (cases s) (auto split: if_splits)

lemma py_int_none: "\<not> integer_pattern s \<Longrightarrow> py_int s = None"
  unfolding integer_pattern_def py_int_def
  by (cases s) (auto split: if_splits)

lemma unsigned_decimal_iff:
  "unsigned_decimal r \<noteq> None \<longleftrightarrow>
     (list_all (\<lambda>c. is_digit c \<or> c = CHR ''.'') r \<and> list_ex is_digit r \<and> count_list r CHR ''.'' \<le> 1)"
proof -
  consider (zero) "count_list r CHR ''.'' = 0" | (one) "count_list r CHR ''.'' = 1"
    | (more) "count_list r CHR ''.'' \<ge> 2" by linarith
  then show ?thesis
  proof cases
    case zero
    then have nd: "CHR ''.'' \<notin> set r" by (simp add: count_list_0_iff)
    then have "py_split CHR ''.'' r = [r]" by (rule py_split_none)
    moreover from nd have "list_all (\<lambda>c. is_digit c \<or> c = CHR ''.'') r = list_all is_digit r"
      by (auto simp: list_all_iff)
    ultimately show ?thesis using zero list_all_nonempty_ex [of is_digit r]
      by (auto simp: unsigned_decimal_def py_isdigit_def)
  next
    case one
    from py_split_one [OF one] obtain a b where
      ab: "py_split CHR ''.'' r = [a, b]" "r = a @ CHR ''.'' # b"
          "CHR ''.'' \<notin> set a" "CHR ''.'' \<notin> set b" by blast
    then have "list_all (\<lambda>c. is_digit c \<or> c = CHR ''.'') r = list_all is_digit (a @ b)"
      by (auto simp: list_all_iff)
    moreover have "list_ex is_digit r = list_ex is_digit (a @ b)"
      using ab by (auto simp: list_ex_iff not_digit_dot)
    ultimately show ?thesis using one ab(1) list_all_nonempty_ex [of is_digit "a @ b"]
      by (auto simp: unsigned_decimal_def py_isdigit_def)
  next
    case more
    then have "length (py_split CHR ''.'' r) \<ge> 3" by (simp add: py_split_length)
    then have "unsigned_decimal r = None"
      by (auto simp: unsigned_decimal_def split: list.splits)
    with more show ?thesis by simp
  qed
qed

lemma nondigit_is_dot:
  "list_all (\<lambda>c. is_digit c \<or> c = CHR ''.'') r \<Longrightarrow> \<not> list_all is_digit r \<Longrightarrow> CHR ''.'' \<in> set r"
  by (auto simp: list_all_iff)

lemma py_float_decimal:
  assumes dp: "decimal_pattern s" and ni: "\<not> integer_pattern s"
  shows "py_float s \<noteq> None \<longleftrightarrow> (CHR ''.'' \<in> set s \<and> (CHR ''-'' \<in> set s \<longrightarrow> hd s = CHR ''-''))"
proof (cases s)
  case Nil
  with dp show ?thesis by (simp add: decimal_pattern_def)
next
  case (Cons c r)
  show ?thesis
  proof (cases "c = CHR ''-''")
    case True
    from dp Cons True have nm: "CHR ''-'' \<notin> set r"
      by (simp add: decimal_pattern_def count_list_0_iff)
    from dp Cons True nm have all: "list_all (\<lambda>c. is_digit c \<or> c = CHR ''.'') r"
      and ex: "list_ex is_digit r" and cnt: "count_list r CHR ''.'' \<le> 1"
      by (auto simp: decimal_pattern_def list_all_iff not_digit_minus)
    then have ok: "unsigned_decimal r \<noteq> None" using unsigned_decimal_iff [of r] by blast
    from ni Cons True have "\<not> py_isdigit r" by (simp add: integer_pattern_def)
    with ex have "\<not> list_all is_digit r" by (auto simp: py_isdigit_def)
    with all have "CHR ''.'' \<in> set r" by (rule nondigit_is_dot)
    with ok Cons True show ?thesis by (simp add: py_float_def)
  next
    case False
    from ni Cons False have nd: "\<not> py_isdigit s" by (simp add: integer_pattern_def)
    have pf: "py_float s = unsigned_decimal s" using Cons False by (simp add: py_float_def)
    show ?thesis
    proof (cases "CHR ''-'' \<in> set s")
      case True
      then have "\<not> list_all (\<lambda>c. is_digit c \<or> c = CHR ''.'') s"
        unfolding list_all_iff using not_digit_minus by (intro notI) (drule bspec, assumption, simp)
      then have "unsigned_decimal s = None" using unsigned_decimal_iff [of s] by blast
      with pf True Cons False show ?thesis by simp
    next
      case nm: False
      with dp have all: "list_all (\<lambda>c. is_digit c \<or> c = CHR ''.'') s"
        by (auto simp: decimal_pattern_def list_all_iff)
      with dp have ok: "unsigned_decimal s \<noteq> None"
        using unsigned_decimal_iff [of s] by (simp add: decimal_pattern_def)
      from nd Cons have "\<not> list_all is_digit s" by (simp add: py_isdigit_def)
      with all have "CHR ''.'' \<in> set s" by (rule nondigit_is_dot)
      with ok pf nm show ?thesis by simp
    qed
  qed
qed

lemma convert_value_integer:
  "integer_pattern s \<Longrightarrow> convert_value (CellStr s) = Inr (JInt (integer_value s))"
  using integer_pattern_decimal [of s] integer_pattern_no_dot [of s] py_int_integer [of s]
  by (auto simp: isdigit_test_iff integer_pattern_def)

lemma convert_value_decimal:
  assumes "decimal_pattern s" "\<not> integer_pattern s"
  shows "convert_value (CellStr s) = Inr (case py_float s of Some x \<Rightarrow> JFloat x | None \<Rightarrow> JStr s)"
proof -
  from assms(1) have ne: "s \<noteq> []" by (auto simp: decimal_pattern_def)
  show ?thesis
  proof (cases "CHR ''.'' \<in> set s")
    case True
    with assms(1) ne show ?thesis by (simp add: isdigit_test_iff split: option.splits)
  next
    case False
    with py_float_decimal [OF assms] have "py_float s = None" by simp
    with False assms ne py_int_none [of s] show ?thesis by (simp add: isdigit_test_iff)
  qed
qed

lemma convert_value_other:
  "s \<noteq> [] \<Longrightarrow> \<not> decimal_pattern s \<Longrightarrow> convert_value (CellStr s) = Inr (JStr s)"
  by (simp add: isdigit_test_iff)




subsection \<open>Filter Builder\<close>

lemma foldl_append_map: "foldl (\<lambda>fs x. fs @ [f x]) acc xs = acc @ map f xs"
  by (induction xs arbitrary: acc) auto

lemma append_filters_acc: "append_filters t ids filters = filters @ append_filters t ids []"
  by (cases ids) (auto simp: foldl_append_map)

lemma prepare_filters_concat:
  "prepare_filters a c i l =
     append_filters ''FILTER_ADVERTISER'' a [] @ append_filters ''FILTER_MEDIA_PLAN'' c []
     @ append_filters ''FILTER_INSERTION_ORDER'' i [] @ append_filters ''FILTER_LINE_ITEM'' l []"
  unfolding prepare_filters_def Let_def
  by (simp only: append_filters_acc [of _ _ "append_filters t ids fs" for t ids fs]
        append_filters_acc [of _ _ "xs @ ys" for xs ys] append_assoc)

lemma append_filters_list:
  "append_filters t (Some (StrList xs)) [] = map (\<lambda>x. \<lparr>filter_type = t, filter_value = x\<rparr>) xs"
  by (simp add: foldl_append_map)

lemma append_filters_string:
  "s \<noteq> [] \<Longrightarrow> append_filters t (Some (Str s)) [] = append_filters t (Some (StrList (split_and_strip s))) []"
  by (simp add: split_and_strip_def py_split_nonempty)

lemma append_filters_None: "append_filters t None [] = []" by simp

text \<open>
  Claim C6, as amended. For every category, a non-empty comma-separated string yields the
  same clauses as the list of its pieces, each trimmed (the empty string yields no clause,
  like an absent input). A list yields one clause per element, in order, with the category's
  type and the element untrimmed; the categories follow each other in the order advertiser,
  campaign, insertion order, line item.
\<close>

theorem prepare_filters_string_as_list:
  "(s \<noteq> [] \<longrightarrow>
      prepare_filters (Some (Str s)) c i l = prepare_filters (Some (StrList (split_and_strip s))) c i l
    \<and> prepare_filters a (Some (Str s)) i l = prepare_filters a (Some (StrList (split_and_strip s))) i l
    \<and> prepare_filters a c (Some (Str s)) l = prepare_filters a c (Some (StrList (split_and_strip s))) l
    \<and> prepare_filters a c i (Some (Str s)) = prepare_filters a c i (Some (StrList (split_and_strip s))))
   \<and> split_and_strip s = map py_strip (py_split CHR '','' s)
   \<and> prepare_filters (Some (StrList xs)) None None None
        = map (\<lambda>x. \<lparr>filter_type = ''FILTER_ADVERTISER'', filter_value = x\<rparr>) xs
   \<and> prepare_filters None (Some (StrList xs)) None None
        = map (\<lambda>x. \<lparr>filter_type = ''FILTER_MEDIA_PLAN'', filter_value = x\<rparr>) xs
   \<and> prepare_filters None None (Some (StrList xs)) None
        = map (\<lambda>x. \<lparr>filter_type = ''FILTER_INSERTION_ORDER'', filter_value = x\<rparr>) xs
   \<and> prepare_filters None None None (Some (StrList xs))
        = map (\<lambda>x. \<lparr>filter_type = ''FILTER_LINE_ITEM'', filter_value = x\<rparr>) xs
   \<and> prepare_filters a c i l
        = prepare_filters a None None None @ prepare_filters None c None None
          @ prepare_filters None None i None @ prepare_filters None None None l"
  by (simp add: prepare_filters_concat append_filters_list append_filters_string append_filters_None
        split_and_strip_def del: append_filters.simps)

text \<open>The theorem at the specification's example, and at a list whose element keeps its
  spaces.\<close>

theorem prepare_filters_string_as_list_witness:
  "prepare_filters (Some (Str ''1,2, 3'')) None None None
     = prepare_filters (Some (StrList [''1'', ''2'', ''3''])) None None None
   \<and> split_and_strip ''1,2, 3'' = [''1'', ''2'', ''3'']
   \<and> prepare_filters (Some (Str ''1,2, 3'')) None None None
     = [\<lparr>filter_type = ''FILTER_ADVERTISER'', filter_value = ''1''\<rparr>,
        \<lparr>filter_type = ''FILTER_ADVERTISER'', filter_value = ''2''\<rparr>,
        \<lparr>filter_type = ''FILTER_ADVERTISER'', filter_value = ''3''\<rparr>]
   \<and> prepare_filters None None (Some (StrList ['' 7 ''])) (Some (Str ''8''))
     = [\<lparr>filter_type = ''FILTER_INSERTION_ORDER'', filter_value = '' 7 ''\<rparr>,
        \<lparr>filter_type = ''FILTER_LINE_ITEM'', filter_value = ''8''\<rparr>]"
  using prepare_filters_string_as_list [of "''1,2, 3''" None None None None "[''1'', ''2'', ''3'']"]
  by (simp add: split_and_strip_def py_strip_def is_space_def prepare_filters_def)

text \<open>
  Claim C6 as stated fails at the empty string: \<open>if advertiser_ids:\<close> treats it as absent,
  while the list of its trimmed pieces holds one (empty) identifier and yields one clause.
\<close>

theorem prepare_filters_empty_string_counterexample:
  "prepare_filters (Some (Str '''')) None None None = []
   \<and> split_and_strip '''' = ['''']
   \<and> prepare_filters (Some (StrList [''''])) None None None
       = [\<lparr>filter_type = ''FILTER_ADVERTISER'', filter_value = ''''\<rparr>]"
  by (simp add: prepare_filters_def split_and_strip_def py_strip_def)

subsection \<open>Entity list tools\<close>

lemma map_of_set_if_given:
  "k \<noteq> k' \<Longrightarrow> map_of (set_if_given k v ps) k' = map_of ps k'"
  by (cases v) (auto simp: update_conv')

text \<open>
  Claim C10. Each of the five list tools sends \<open>pageSize = min(page_size, 100)\<close>: a larger
  request is clamped to 100, not rejected (the one refusal before a request, a missing
  partner, does not depend on the page size).
\<close>

theorem list_tools_page_size:
  "(\<forall>ps. dv_list_advertisers_params dflt partner_id page_size order_by = Some ps \<longrightarrow>
        map_of ps ''pageSize'' = Some (PInt (min page_size 100)))
   \<and> map_of (dv_list_campaigns_params advertiser_id page_size filter_expr order_by) ''pageSize''
        = Some (PInt (min page_size 100))
   \<and> map_of (dv_list_insertion_orders_params advertiser_id page_size filter_expr order_by) ''pageSize''
        = Some (PInt (min page_size 100))
   \<and> map_of (dv_list_line_items_params advertiser_id page_size filter_expr order_by) ''pageSize''
        = Some (PInt (min page_size 100))
   \<and> map_of (dv_list_creatives_params advertiser_id page_size filter_expr order_by) ''pageSize''
        = Some (PInt (min page_size 100))
   \<and> (100 < page_size \<longrightarrow> min page_size 100 = 100)
   \<and> (dv_list_advertisers_params dflt partner_id page_size order_by = None
        \<longleftrightarrow> partner_id = None \<and> dflt = None)"
  by (auto simp: dv_list_advertisers_params_def dv_list_campaigns_params_def
      dv_list_insertion_orders_params_def dv_list_line_items_params_def
      dv_list_creatives_params_def advertiser_list_params_def map_of_set_if_given
      split: option.splits)

text \<open>The theorem at a page size of 500 and of 25.\<close>

theorem list_tools_page_size_witness:
  "dv_list_advertisers_params None (Some ''7'') 500 (Some ''displayName'')
     = Some [(''partnerId'', PStr ''7''), (''pageSize'', PInt 100), (''orderBy'', PStr ''displayName'')]
   \<and> map_of (dv_list_campaigns_params ''7'' 500 None None) ''pageSize'' = Some (PInt 100)
   \<and> map_of (dv_list_creatives_params ''7'' 25 None None) ''pageSize'' = Some (PInt 25)
   \<and> dv_list_advertisers_params None None 500 None = None"
  using list_tools_page_size [where page_size = 500 and advertiser_id = "''7''"]
    list_tools_page_size [where page_size = 25 and advertiser_id = "''7''"]
  by (simp add: dv_list_advertisers_params_def dv_list_campaigns_params_def
      dv_list_creatives_params_def advertiser_list_params_def)

subsection \<open>Report Orchestrator: the sequencing of effects\<close>

lemma then_do_Inl: "then_do (ev, Inl e) f = (ev, Inl e)"
  by (simp add: then_do_def)

lemma then_do_Inr: "then_do (ev, Inr x) f = prepend ev (f x)"
  by (simp add: then_do_def prepend_def split: prod.splits)

lemma then_do_eq:
  "then_do m f = (case snd m of Inl e \<Rightarrow> (fst m, Inl e) | Inr x \<Rightarrow> prepend (fst m) (f x))"
  by (cases m) (simp add: then_do_def prepend_def split: prod.splits sum.splits)

lemma prepend_Nil: "prepend [] m = m"
  by (simp add: prepend_def)

lemma prepend_pair: "prepend evs (ev, r) = (evs @ ev, r)"
  by (simp add: prepend_def)

lemma prepend_prepend: "prepend evs (prepend evs' m) = prepend (evs @ evs') m"
  by (simp add: prepend_def)

lemma fst_prepend: "fst (prepend evs m) = evs @ fst m"
  by (simp add: prepend_def)

lemma snd_prepend: "snd (prepend evs m) = snd m"
  by (simp add: prepend_def)

lemmas comp_simps = then_do_Inl then_do_Inr pure_def logger_def prepend_Nil prepend_pair
  prepend_prepend fst_prepend snd_prepend

lemma download_eq:
  "download_csv_from_gcs env p =
     (case urlopen_read env p of
        Inl e \<Rightarrow> ([Log INFO (''Downloading report from: '' @ p), Urlopen p], Inl e)
      | Inr content \<Rightarrow>
          ([Log INFO (''Downloading report from: '' @ p), Urlopen p,
            Log INFO (''Report downloaded successfully ('' @ digits_of (length content) @ '' bytes)'')],
           Inr content))"
  by (simp add: download_csv_from_gcs_def comp_simps split: sum.splits)

lemma parse_csv_to_json_eq:
  "parse_csv_to_json c =
     (case dict_reader (csv_reader c) of (rows, err) \<Rightarrow>
        (case parse_rows rows [] of
           Inl e \<Rightarrow> ([], Inl e)
         | Inr data \<Rightarrow>
             (case err of
                Some e \<Rightarrow> ([], Inl e)
              | None \<Rightarrow> ([Log INFO (''Parsed '' @ digits_of (length data) @ '' rows from CSV'')],
                          Inr data))))"
  by (simp add: parse_csv_to_json_def then_do_eq comp_simps
      split: prod.splits sum.splits option.splits)

lemma parse_csv_events:
  "fst (parse_csv_to_json c) =
     (case snd (parse_csv_to_json c) of
        Inl e \<Rightarrow> []
      | Inr data \<Rightarrow> [Log INFO (''Parsed '' @ digits_of (length data) @ '' rows from CSV'')])"
  by (simp add: parse_csv_to_json_eq split: prod.splits sum.splits option.splits)

text \<open>The code after the run, case by case.\<close>

lemma report_result_eq:
  "report_result env a ds ms fs qid rr =
     (case response_metadata rr of None \<Rightarrow> ([], Inl (KeyError ''metadata'')) | Some md \<Rightarrow>
     (case metadata_status md of None \<Rightarrow> ([], Inl (KeyError ''status'')) | Some st \<Rightarrow>
     (case status_state st of None \<Rightarrow> ([], Inl (KeyError ''state'')) | Some s \<Rightarrow>
      if s = ''FAILED'' then
        ([Log ERROR (''Report failed: '' @ (case status_message st of Some m \<Rightarrow> m | None \<Rightarrow> ''Unknown error''))],
         Inr (Failed (''Report generation failed: '' @ (case status_message st of Some m \<Rightarrow> m | None \<Rightarrow> ''Unknown error'')) (Some qid)))
      else
     (case response_key rr of None \<Rightarrow> ([], Inl (KeyError ''key'')) | Some k \<Rightarrow>
     (case key_reportId k of None \<Rightarrow> ([], Inl (KeyError ''reportId'')) | Some rid \<Rightarrow>
      prepend [Log INFO (''Report '' @ rid @ '' generated successfully'')]
     (case metadata_googleCloudStoragePath md of
         None \<Rightarrow> ([], Inl (KeyError ''googleCloudStoragePath''))
       | Some p \<Rightarrow>
      prepend [Log INFO (''Downloading report from: '' @ p), Urlopen p]
     (case urlopen_read env p of Inl e \<Rightarrow> ([], Inl e) | Inr content \<Rightarrow>
      prepend [Log INFO (''Report downloaded successfully ('' @ digits_of (length content) @ '' bytes)'')]
     (case snd (parse_csv_to_json content) of Inl e \<Rightarrow> ([], Inl e) | Inr data \<Rightarrow>
        ([Log INFO (''Parsed '' @ digits_of (length data) @ '' rows from CSV'')],
         Inr (Succeeded data
           \<lparr>query_id = qid, report_id = rid,
            date_range_start_date = start_date a, date_range_end_date = end_date a,
            result_dimensions = ds, result_metrics = ms, result_filters = fs,
            row_count = length data\<rparr>))))))))))"
  by (simp add: report_result_def comp_simps Let_def download_eq then_do_eq parse_csv_events
      split: option.splits sum.splits)

lemma remote_ops_prepend: "remote_ops (fst (prepend evs m)) = remote_ops evs @ remote_ops (fst m)"
  by (simp add: prepend_def remote_ops_def)

lemma report_result_ops:
  "remote_ops (fst (report_result env a ds ms fs qid rr)) = []
   \<or> (\<exists>p. remote_ops (fst (report_result env a ds ms fs qid rr)) = [Urlopen p])"
  by (simp add: report_result_eq remote_ops_prepend split: option.splits sum.splits)
     (simp add: remote_ops_def)

lemma report_result_no_run: "\<not> is_run ev \<or> ev \<notin> set (fst (report_result env a ds ms fs qid rr))"
  by (auto simp: report_result_eq prepend_def split: option.splits sum.splits if_splits)

lemma report_try_eq:
  "report_try env a =
     (case get_service env of Some e \<Rightarrow> ([], Inl e) | None \<Rightarrow>
     (case format_date_for_api (start_date a) of Inl e \<Rightarrow> ([], Inl e) | Inr sd \<Rightarrow>
     (case format_date_for_api (end_date a) of Inl e \<Rightarrow> ([], Inl e) | Inr ed \<Rightarrow>
      prepend ((if prepare_filters (advertiser_ids a) (campaign_ids a) (insertion_order_ids a)
                     (line_item_ids a) = [] then [no_filter_caution] else [])
               @ [Log INFO (''Creating query: '' @ report_name a),
                  QueriesCreate (submitted_query a sd ed)])
     (case queries_create env (submitted_query a sd ed) of Inl e \<Rightarrow> ([], Inl e) | Inr qr \<Rightarrow>
     (case queryId qr of None \<Rightarrow> ([], Inl (KeyError ''queryId'')) | Some qid \<Rightarrow>
      prepend [Log INFO (''Query '' @ qid @ '' created. Running synchronously...''), QueriesRun qid]
     (case queries_run env qid of Inl e \<Rightarrow> ([], Inl e) | Inr rr \<Rightarrow>
        report_result env a (as_list (dimensions a)) (as_list (metrics a))
          (prepare_filters (advertiser_ids a) (campaign_ids a) (insertion_order_ids a)
             (line_item_ids a)) qid rr))))))"
  by (simp add: report_try_def comp_simps Let_def then_do_eq submitted_query_def
      prepare_dimensions_and_metrics_def no_filter_caution_def
      split: option.splits sum.splits)

lemma dv_run_report_eq:
  "dv_run_report env a =
     (case snd (report_try env a) of
        Inr r \<Rightarrow> report_try env a
      | Inl e \<Rightarrow> (fst (report_try env a) @ [Log ERROR (''Error running report: '' @ exception_str e)],
                  Inr (Failed (exception_str e) None)))"
  by (cases "report_try env a") (simp add: dv_run_report_def split: sum.splits)

lemma remote_ops_dv_run_report:
  "remote_ops (fst (dv_run_report env a)) = remote_ops (fst (report_try env a))"
  by (simp add: dv_run_report_eq remote_ops_def split: sum.splits)

subsection \<open>The scenarios, evaluated\<close>

lemmas csv_eval = csv_reader_def parse_reset_def parse_save_field_def parse_add_char_def
  field_limit_def set_state_def is_newline_def dict_reader_def dict_row_def dict_of_def

lemmas cell_eval = py_isdigit_def is_digit_def py_int_def py_float_def unsigned_decimal_def
  digits_value_def digit_value_def

lemmas scenario_eval = scenario_args_def succeeding_remote_def failing_remote_def
  failed_response_def done_response_def unfiltered_args_def bad_date_args_def
  broken_download_remote_def format_date_for_api_def prepare_filters_def split_and_strip_def
  py_strip_def is_space_def submitted_query_def build_query_def unpack_error_def

lemma scenario_csv_rows:
  "csv_reader scenario_csv =
     ([[''date'', ''impressions''], [''2025-01-01'', ''100''], [''2025-01-02'', ''200'']], None)"
  by (simp add: scenario_csv_def csv_eval)

lemma scenario_csv_parsed:
  "parse_csv_to_json scenario_csv =
     ([Log INFO ''Parsed 2 rows from CSV''],
      Inr [[(Some ''date'', JStr ''2025-01-01''), (Some ''impressions'', JInt 100)],
           [(Some ''date'', JStr ''2025-01-02''), (Some ''impressions'', JInt 200)]])"
  by (simp add: parse_csv_to_json_eq scenario_csv_rows dict_reader_def dict_row_def dict_of_def
      cell_eval digits_of.simps)

lemma run_failing_scenario:
  "dv_run_report (failing_remote msg) scenario_args =
     ([Log INFO ''Creating query: MCP Report'',
       QueriesCreate (submitted_query scenario_args
          \<lparr>year = ''2025'', month = ''01'', day = ''01''\<rparr>
          \<lparr>year = ''2025'', month = ''01'', day = ''31''\<rparr>),
       Log INFO ''Query q1 created. Running synchronously...'',
       QueriesRun ''q1'',
       Log ERROR (''Report failed: '' @ (case msg of Some m \<Rightarrow> m | None \<Rightarrow> ''Unknown error''))],
      Inr (Failed (''Report generation failed: ''
                    @ (case msg of Some m \<Rightarrow> m | None \<Rightarrow> ''Unknown error'')) (Some ''q1'')))"
  by (simp add: dv_run_report_eq report_try_eq report_result_eq scenario_eval prepend_def)

lemma run_succeeding_scenario:
  "dv_run_report succeeding_remote scenario_args =
     ([Log INFO ''Creating query: MCP Report'',
       QueriesCreate (submitted_query scenario_args
          \<lparr>year = ''2025'', month = ''01'', day = ''01''\<rparr>
          \<lparr>year = ''2025'', month = ''01'', day = ''31''\<rparr>),
       Log INFO ''Query q1 created. Running synchronously...'',
       QueriesRun ''q1'',
       Log INFO ''Report r1 generated successfully'',
       Log INFO ''Downloading report from: https://storage.example/report.csv'',
       Urlopen ''https://storage.example/report.csv'',
       Log INFO ''Report downloaded successfully (46 bytes)'',
       Log INFO ''Parsed 2 rows from CSV''],
      Inr (Succeeded
        [[(Some ''date'', JStr ''2025-01-01''), (Some ''impressions'', JInt 100)],
         [(Some ''date'', JStr ''2025-01-02''), (Some ''impressions'', JInt 200)]]
        \<lparr>query_id = ''q1'', report_id = ''r1'',
         date_range_start_date = ''2025-01-01'', date_range_end_date = ''2025-01-31'',
         result_dimensions = [''FILTER_DATE''], result_metrics = [''METRIC_IMPRESSIONS''],
         result_filters = [\<lparr>filter_type = ''FILTER_ADVERTISER'', filter_value = ''123''\<rparr>],
         row_count = 2\<rparr>))"
  by (simp add: dv_run_report_eq report_try_eq report_result_eq scenario_eval prepend_def
        scenario_csv_parsed digits_of.simps) (simp add: scenario_csv_def)


lemma run_bad_date_scenario:
  "dv_run_report succeeding_remote bad_date_args =
     ([Log ERROR ''Error running report: not enough values to unpack (expected 3, got 1)''],
      Inr (Failed ''not enough values to unpack (expected 3, got 1)'' None))"
  by (simp add: dv_run_report_eq report_try_eq scenario_eval digits_of.simps)


lemma ragged_csv_rows: "csv_reader ragged_csv = ([[''a''], [''1'', ''2'']], None)"
  by (simp add: ragged_csv_def csv_eval)

lemma ragged_csv_dicts:
  "dict_reader (csv_reader ragged_csv) = ([[(Some ''a'', CellStr ''1''), (None, CellList [''2''])]], None)"
  by (simp add: ragged_csv_rows dict_reader_def dict_row_def dict_of_def)

lemma ragged_csv_parsed:
  "parse_csv_to_json ragged_csv =
     ([], Inl (AttributeError (quoted ''list'' @ '' object has no attribute '' @ quoted ''replace'')))"
  by (simp add: parse_csv_to_json_eq ragged_csv_dicts cell_eval)


subsection \<open>Report Orchestrator: the remote failure state\<close>

lemma op_in_dv_run_report:
  "is_remote_op ev \<Longrightarrow>
     ev \<in> set (fst (dv_run_report env a)) \<longleftrightarrow> ev \<in> set (fst (report_try env a))"
  by (auto simp: dv_run_report_eq split: sum.splits)


lemma run_in_trace:
  assumes "QueriesRun qid \<in> set (fst (report_try env a))"
  shows "\<exists>sd ed qr. get_service env = None \<and> format_date_for_api (start_date a) = Inr sd
           \<and> format_date_for_api (end_date a) = Inr ed
           \<and> queries_create env (submitted_query a sd ed) = Inr qr \<and> queryId qr = Some qid"
  using assms report_result_no_run [of "QueriesRun qid" env a]
  by (auto simp: report_try_eq prepend_def no_filter_caution_def
      split: option.splits sum.splits if_splits)

lemma snd_report_try_after_run:
  assumes "get_service env = None" "format_date_for_api (start_date a) = Inr sd"
    "format_date_for_api (end_date a) = Inr ed"
    "queries_create env (submitted_query a sd ed) = Inr qr" "queryId qr = Some qid"
  shows "snd (report_try env a) =
     (case queries_run env qid of
        Inl e \<Rightarrow> Inl e
      | Inr rr \<Rightarrow> snd (report_result env a (as_list (dimensions a)) (as_list (metrics a))
                    (prepare_filters (advertiser_ids a) (campaign_ids a) (insertion_order_ids a)
                       (line_item_ids a)) qid rr))"
  using assms by (simp add: report_try_eq snd_prepend split: sum.splits)

lemma snd_dv_run_report:
  "snd (dv_run_report env a) =
     (case snd (report_try env a) of Inr r \<Rightarrow> Inr r | Inl e \<Rightarrow> Inr (Failed (exception_str e) None))"
  by (simp add: dv_run_report_eq split: sum.splits)

text \<open>
  Claim C2. When the run of the submitted query answers with the state \<open>FAILED\<close>, the tool
  returns the failure record whose error is \<open>Report generation failed: \<close> followed by the
  status message, or by \<open>Unknown error\<close> when the status has no message, together with the
  query id obtained at submission; no exception leaves the tool.
\<close>

theorem dv_run_report_failed_state:
  assumes "QueriesRun qid \<in> set (fst (dv_run_report env a))"
    and "queries_run env qid = Inr rr"
    and "response_metadata rr = Some md"
    and "metadata_status md = Some st"
    and "status_state st = Some ''FAILED''"
  shows "snd (dv_run_report env a) =
           Inr (Failed (''Report generation failed: ''
                         @ (case status_message st of Some m \<Rightarrow> m | None \<Rightarrow> ''Unknown error''))
                       (Some qid))
         \<and> (\<exists>q qr. QueriesCreate q \<in> set (fst (dv_run_report env a))
                \<and> queries_create env q = Inr qr \<and> queryId qr = Some qid)"
proof -
  from assms(1) have "QueriesRun qid \<in> set (fst (report_try env a))"
    by (simp add: op_in_dv_run_report)
  from run_in_trace [OF this] obtain sd ed qr where
    prep: "get_service env = None" "format_date_for_api (start_date a) = Inr sd"
      "format_date_for_api (end_date a) = Inr ed"
    and cr: "queries_create env (submitted_query a sd ed) = Inr qr" "queryId qr = Some qid"
    by blast
  have "snd (report_try env a) =
          Inr (Failed (''Report generation failed: ''
                        @ (case status_message st of Some m \<Rightarrow> m | None \<Rightarrow> ''Unknown error''))
                      (Some qid))"
    using snd_report_try_after_run [OF prep cr] assms(2-5) by (simp add: report_result_eq)
  then have res: "snd (dv_run_report env a) =
          Inr (Failed (''Report generation failed: ''
                        @ (case status_message st of Some m \<Rightarrow> m | None \<Rightarrow> ''Unknown error''))
                      (Some qid))"
    by (simp add: snd_dv_run_report)
  have "QueriesCreate (submitted_query a sd ed) \<in> set (fst (report_try env a))"
    using prep by (simp add: report_try_eq fst_prepend)
  then have "QueriesCreate (submitted_query a sd ed) \<in> set (fst (dv_run_report env a))"
    by (simp add: op_in_dv_run_report)
  with cr res show ?thesis by blast
qed

text \<open>The theorem at scenario B, with the message \<open>quota exceeded\<close> and without a message.\<close>

theorem dv_run_report_failed_state_witness:
  "snd (dv_run_report (failing_remote (Some ''quota exceeded'')) scenario_args)
     = Inr (Failed ''Report generation failed: quota exceeded'' (Some ''q1''))
   \<and> snd (dv_run_report (failing_remote None) scenario_args)
     = Inr (Failed ''Report generation failed: Unknown error'' (Some ''q1''))
   \<and> QueriesRun ''q1'' \<in> set (fst (dv_run_report (failing_remote None) scenario_args))"
proof -
  have run: "QueriesRun ''q1'' \<in> set (fst (dv_run_report (failing_remote msg) scenario_args))" for msg
    by (simp add: run_failing_scenario)
  have resp: "queries_run (failing_remote msg) ''q1'' = Inr (failed_response msg)" for msg
    by (simp add: failing_remote_def)
  have md: "response_metadata (failed_response msg)
      = Some \<lparr>metadata_status = Some \<lparr>status_state = Some ''FAILED'', status_message = msg\<rparr>,
              metadata_googleCloudStoragePath = None\<rparr>" for msg
    by (simp add: failed_response_def)
  from dv_run_report_failed_state [OF run resp md, of "Some ''quota exceeded''"]
    dv_run_report_failed_state [OF run resp md, of None] run [of None]
  show ?thesis by simp
qed

subsection \<open>Report Orchestrator: exceptions\<close>








subsection \<open>Report Orchestrator: the success record\<close>



subsection \<open>Report Orchestrator: a report without filters\<close>






subsection \<open>Report Orchestrator: the remote operations of a call\<close>

lemma filter_prepend:
  "filter P (fst (prepend evs m)) = filter P evs @ filter P (fst m)"
  by (simp add: prepend_def)

lemma report_result_no_create: "filter is_create (fst (report_result env a ds ms fs qid rr)) = []"
  by (simp add: report_result_eq filter_prepend split: option.splits sum.splits)

lemma report_result_no_run_filter: "filter is_run (fst (report_result env a ds ms fs qid rr)) = []"
  by (simp add: report_result_eq filter_prepend split: option.splits sum.splits)

lemma report_result_downloads:
  "length (filter is_download (fst (report_result env a ds ms fs qid rr))) \<le> 1"
  by (simp add: report_result_eq filter_prepend split: option.splits sum.splits)

lemma filter_dv_run_report:
  "(\<And>m. \<not> P (Log ERROR m)) \<Longrightarrow>
     filter P (fst (dv_run_report env a)) = filter P (fst (report_try env a))"
  by (simp add: dv_run_report_eq split: sum.splits)

lemma remote_ops_simps:
  "remote_ops [] = []"
  "remote_ops (Log level m # evs) = remote_ops evs"
  "remote_ops (QueriesCreate q # evs) = QueriesCreate q # remote_ops evs"
  "remote_ops (QueriesRun qid # evs) = QueriesRun qid # remote_ops evs"
  "remote_ops (Urlopen p # evs) = Urlopen p # remote_ops evs"
  by (simp_all add: remote_ops_def)

lemma report_try_ops:
  "remote_ops (fst (report_try env a)) = []
   \<or> (\<exists>q. remote_ops (fst (report_try env a)) = [QueriesCreate q])
   \<or> (\<exists>q qid. remote_ops (fst (report_try env a)) = [QueriesCreate q, QueriesRun qid])
   \<or> (\<exists>q qid p. remote_ops (fst (report_try env a)) = [QueriesCreate q, QueriesRun qid, Urlopen p])"
proof (cases "prepared env a")
  case False
  then have "remote_ops (fst (report_try env a)) = []"
    by (auto simp: report_try_eq prepared_def remote_ops_simps split: option.splits sum.splits)
  then show ?thesis by simp
next
  case True
  then obtain sd ed where prep: "get_service env = None"
    "format_date_for_api (start_date a) = Inr sd" "format_date_for_api (end_date a) = Inr ed"
    by (cases "format_date_for_api (start_date a)"; cases "format_date_for_api (end_date a)")
       (auto simp: prepared_def)
  let ?q = "submitted_query a sd ed"
  show ?thesis
  proof (cases "queries_create env ?q")
    case (Inl e)
    with prep have "remote_ops (fst (report_try env a)) = [QueriesCreate ?q]"
      by (simp add: report_try_eq remote_ops_prepend remote_ops_simps no_filter_caution_def)
    then show ?thesis by simp
  next
    case (Inr qr)
    show ?thesis
    proof (cases "queryId qr")
      case None
      with prep Inr have "remote_ops (fst (report_try env a)) = [QueriesCreate ?q]"
        by (simp add: report_try_eq remote_ops_prepend remote_ops_simps no_filter_caution_def)
      then show ?thesis by simp
    next
      case (Some qid)
      show ?thesis
      proof (cases "queries_run env qid")
        case (Inl e)
        with prep Inr Some
        have "remote_ops (fst (report_try env a)) = [QueriesCreate ?q, QueriesRun qid]"
          by (simp add: report_try_eq remote_ops_prepend remote_ops_simps no_filter_caution_def)
        then show ?thesis by simp
      next
        case rr: (Inr rr)
        let ?r = "report_result env a (as_list (dimensions a)) (as_list (metrics a))
          (prepare_filters (advertiser_ids a) (campaign_ids a) (insertion_order_ids a)
             (line_item_ids a)) qid rr"
        from prep Inr Some rr
        have "remote_ops (fst (report_try env a))
            = [QueriesCreate ?q, QueriesRun qid] @ remote_ops (fst ?r)"
          by (simp add: report_try_eq remote_ops_prepend remote_ops_simps no_filter_caution_def)
        with report_result_ops [of env a _ _ _ qid rr] show ?thesis by auto
      qed
    qed
  qed
qed

lemma report_try_creates:
  "length (filter is_create (fst (report_try env a))) = (if prepared env a then 1 else 0)"
  by (simp add: report_try_eq filter_prepend report_result_no_create prepared_def
      no_filter_caution_def split: option.splits sum.splits)

lemma report_try_runs: "length (filter is_run (fst (report_try env a))) \<le> 1"
  by (simp add: report_try_eq filter_prepend report_result_no_run_filter
      no_filter_caution_def split: option.splits sum.splits)

lemma report_try_downloads: "length (filter is_download (fst (report_try env a))) \<le> 1"
  using report_result_downloads [of env a]
  by (simp add: report_try_eq filter_prepend no_filter_caution_def
      split: option.splits sum.splits)

text \<open>
  Claim C9, as amended. The remote operations of a call are, in this order, at most one
  submission, at most one run and at most one download, each present only if the one before
  it is; none is repeated. The call submits exactly once when the service is there and both
  dates are formatted, and not at all otherwise.
\<close>

theorem remote_operations_once_in_order:
  "(remote_ops (fst (dv_run_report env a)) = []
    \<or> (\<exists>q. remote_ops (fst (dv_run_report env a)) = [QueriesCreate q])
    \<or> (\<exists>q qid. remote_ops (fst (dv_run_report env a)) = [QueriesCreate q, QueriesRun qid])
    \<or> (\<exists>q qid p. remote_ops (fst (dv_run_report env a))
                     = [QueriesCreate q, QueriesRun qid, Urlopen p]))
   \<and> length (filter is_create (fst (dv_run_report env a))) = (if prepared env a then 1 else 0)
   \<and> length (filter is_run (fst (dv_run_report env a))) \<le> 1
   \<and> length (filter is_download (fst (dv_run_report env a))) \<le> 1"
  using report_try_ops [of env a] report_try_creates [of env a] report_try_runs [of env a]
    report_try_downloads [of env a]
  by (simp add: remote_ops_dv_run_report filter_dv_run_report)

text \<open>The theorem at scenario A (three operations), at a download that raises, at a remote
  failure state and at a malformed start date (no operation).\<close>

theorem remote_operations_once_in_order_witness:
  "remote_ops (fst (dv_run_report succeeding_remote scenario_args))
     = [QueriesCreate (submitted_query scenario_args
          \<lparr>year = ''2025'', month = ''01'', day = ''01''\<rparr>
          \<lparr>year = ''2025'', month = ''01'', day = ''31''\<rparr>),
        QueriesRun ''q1'', Urlopen ''https://storage.example/report.csv'']
   \<and> length (filter is_create (fst (dv_run_report succeeding_remote scenario_args))) = 1
   \<and> prepared succeeding_remote scenario_args
   \<and> length (filter is_create (fst (dv_run_report (failing_remote None) scenario_args))) = 1
   \<and> length (filter is_download (fst (dv_run_report (failing_remote None) scenario_args))) = 0
   \<and> \<not> prepared succeeding_remote bad_date_args
   \<and> length (filter is_create (fst (dv_run_report succeeding_remote bad_date_args))) = 0"
proof -
  have p: "prepared succeeding_remote scenario_args" "prepared (failing_remote None) scenario_args"
    "\<not> prepared succeeding_remote bad_date_args"
    by (simp_all add: prepared_def scenario_eval)
  from remote_operations_once_in_order [of succeeding_remote scenario_args]
    remote_operations_once_in_order [of "failing_remote None" scenario_args]
    remote_operations_once_in_order [of succeeding_remote bad_date_args] p
  show ?thesis
    by (simp add: run_succeeding_scenario run_failing_scenario remote_ops_def)
qed

text \<open>
  Claim C9 as stated fails at a start date that does not split into three components: the
  call ends before the submission, so it performs no remote operation at all.
\<close>

theorem no_submission_counterexample:
  "filter is_create (fst (dv_run_report succeeding_remote bad_date_args)) = []
   \<and> remote_ops (fst (dv_run_report succeeding_remote bad_date_args)) = []
   \<and> snd (dv_run_report succeeding_remote bad_date_args)
       = Inr (Failed ''not enough values to unpack (expected 3, got 1)'' None)"
  by (simp add: run_bad_date_scenario remote_ops_def)

subsection \<open>Report File Decoder: rows and records\<close>

lemma convert_value_infer: "convert_value (CellStr s) = Inr (infer s)"
proof (cases "s = []")
  case True then show ?thesis by (simp add: infer_def)
next
  case ne: False
  show ?thesis
  proof (cases "integer_pattern s")
    case True
    with ne convert_value_integer [OF True] show ?thesis by (simp add: infer_def)
  next
    case ni: False
    show ?thesis
    proof (cases "decimal_pattern s")
      case True
      from convert_value_decimal [OF True ni] ne ni True show ?thesis by (simp add: infer_def)
    next
      case False
      from convert_value_other [OF ne False] ne ni False show ?thesis by (simp add: infer_def)
    qed
  qed
qed

text \<open>Assigning to a key the dictionary does not hold appends the item.\<close>

lemma update_new: "k \<notin> fst ` set d \<Longrightarrow> AList.update k v d = d @ [(k, v)]"
  by (induction d) auto

lemma dict_of_acc:
  "distinct (map fst ps) \<Longrightarrow> fst ` set ps \<inter> fst ` set acc = {} \<Longrightarrow>
     foldl (\<lambda>d (k, v). AList.update k v d) acc ps = acc @ ps"
proof (induction ps arbitrary: acc)
  case Nil then show ?case by simp
next
  case (Cons p ps)
  obtain k v where p: "p = (k, v)" by (cases p)
  from Cons.prems p have new: "k \<notin> fst ` set acc" by auto
  have "foldl (\<lambda>d (k, v). AList.update k v d) (acc @ [(k, v)]) ps = (acc @ [(k, v)]) @ ps"
    using Cons.prems p by (intro Cons.IH) auto
  with new p show ?case by (simp add: update_new)
qed

lemma dict_of_distinct: "distinct (map fst ps) \<Longrightarrow> dict_of ps = ps"
  using dict_of_acc [of ps "[]"] by (simp add: dict_of_def)

lemma fill_missing:
  "distinct ks \<Longrightarrow> Some ` set ks \<inter> fst ` set d = {} \<Longrightarrow>
     foldl (\<lambda>d k. AList.update (Some k) CellNone d) d ks = d @ map (\<lambda>k. (Some k, CellNone)) ks"
proof (induction ks arbitrary: d)
  case Nil then show ?case by simp
next
  case (Cons k ks)
  from Cons.prems have new: "Some k \<notin> fst ` set d" by auto
  have "foldl (\<lambda>d k. AList.update (Some k) CellNone d) (d @ [(Some k, CellNone)]) ks
      = (d @ [(Some k, CellNone)]) @ map (\<lambda>k. (Some k, CellNone)) ks"
    using Cons.prems by (intro Cons.IH) auto
  with new show ?case by (simp add: update_new)
qed

lemma zip_replicate_all: "zip xs (replicate (length xs) c) = map (\<lambda>x. (x, c)) xs"
  by (induction xs) auto

lemma zip_pad:
  "length ys \<le> length xs \<Longrightarrow>
     zip xs (ys @ replicate (length xs - length ys) c)
       = zip xs ys @ map (\<lambda>x. (x, c)) (drop (length ys) xs)"
proof (induction xs arbitrary: ys)
  case Nil then show ?case by simp
next
  case (Cons x xs)
  show ?case
  proof (cases ys)
    case Nil
    with zip_replicate_all [of "x # xs" c] show ?thesis by simp
  next
    case (Cons y ys')
    with Cons.prems Cons.IH [of ys'] show ?thesis by simp
  qed
qed

lemma dict_row_short:
  assumes "distinct h" "length row \<le> length h"
  shows "dict_row h row =
     zip (map Some h) (map CellStr row @ replicate (length h - length row) CellNone)"
proof -
  let ?z = "zip (map Some h) (map CellStr row)"
  have fstz: "map fst ?z = map Some (take (length row) h)"
    using assms(2) by (simp add: map_fst_zip_take min_def take_map)
  have dz: "distinct (map fst ?z)"
    using assms(1) by (simp add: fstz distinct_map)
  then have d: "dict_of ?z = ?z" by (rule dict_of_distinct)
  have split: "zip (map Some h) (map CellStr row @ replicate (length h - length row) CellNone)
      = ?z @ map (\<lambda>k. (Some k, CellNone)) (drop (length row) h)"
    using zip_pad [of "map CellStr row" "map Some h" CellNone] assms(2)
    by (simp add: drop_map comp_def)
  show ?thesis
  proof (cases "length row = length h")
    case True
    with d show ?thesis by (simp add: dict_row_def)
  next
    case False
    with assms(2) have lt: "length row < length h" by simp
    have disj: "Some ` set (drop (length row) h) \<inter> fst ` set ?z = {}"
    proof -
      have "fst ` set ?z = Some ` set (take (length row) h)"
        using fstz by (metis image_set)
      moreover have "set (take (length row) h) \<inter> set (drop (length row) h) = {}"
        using assms(1) by (metis append_take_drop_id distinct_append)
      ultimately show ?thesis by auto
    qed
    have "foldl (\<lambda>d k. AList.update (Some k) CellNone d) ?z (drop (length row) h)
        = ?z @ map (\<lambda>k. (Some k, CellNone)) (drop (length row) h)"
      using assms(1) disj by (intro fill_missing) simp_all
    with lt d split show ?thesis by (simp add: dict_row_def Let_def)
  qed
qed

text \<open>A row dictionary with distinct keys and no surplus cells is converted item by item.\<close>

lemma parse_row_acc:
  "distinct (map fst items) \<Longrightarrow> fst ` set items \<inter> fst ` set acc = {} \<Longrightarrow>
   (\<And>k c l. (k, c) \<in> set items \<Longrightarrow> c \<noteq> CellList l) \<Longrightarrow>
     parse_row items acc = Inr (acc @ map (\<lambda>(k, c). (k, cell_json c)) items)"
proof (induction items arbitrary: acc)
  case Nil then show ?case by simp
next
  case (Cons p items)
  obtain k c where p: "p = (k, c)" by (cases p)
  from Cons.prems(2) p have new: "k \<notin> fst ` set acc" by auto
  from Cons.prems(3) [of k c] p have nl: "\<And>l. c \<noteq> CellList l" by simp
  have conv: "convert_value c = Inr (cell_json c)"
  proof (cases c)
    case CellNone then show ?thesis by simp
  next
    case (CellStr s) then show ?thesis by (simp only: convert_value_infer cell_json.simps)
  next
    case (CellList l) with nl show ?thesis by blast
  qed
  have "parse_row items (acc @ [(k, cell_json c)])
      = Inr ((acc @ [(k, cell_json c)]) @ map (\<lambda>(k, c). (k, cell_json c)) items)"
    using Cons.prems p by (intro Cons.IH) auto
  with new p conv show ?case by (simp add: update_new)
qed

lemma parse_row_dict_row:
  assumes "distinct h" "length row \<le> length h"
  shows "parse_row (dict_row h row) [] = Inr (record_of h row)"
proof -
  let ?cells = "map CellStr row @ replicate (length h - length row) CellNone"
  have len: "length ?cells = length h" using assms(2) by simp
  then have keys: "map fst (zip (map Some h) ?cells) = map Some h" by simp
  have "parse_row (zip (map Some h) ?cells) []
      = Inr ([] @ map (\<lambda>(k, c). (k, cell_json c)) (zip (map Some h) ?cells))"
  proof (rule parse_row_acc)
    show "distinct (map fst (zip (map Some h) ?cells))"
      using assms(1) by (simp only: keys) (simp add: distinct_map)
    show "fst ` set (zip (map Some h) ?cells) \<inter> fst ` set [] = {}" by simp
    fix k c l assume "(k, c) \<in> set (zip (map Some h) ?cells)"
    then have "c \<in> set ?cells" by (rule set_zip_rightD)
    then show "c \<noteq> CellList l" by auto
  qed
  moreover have "map (\<lambda>(k, c). (k, cell_json c)) (zip (map Some h) ?cells)
      = zip (map Some h) (map cell_json ?cells)"
    by (simp add: zip_map2 del: map_append)
  moreover have "map cell_json ?cells = map infer row @ replicate (length h - length row) JNull"
    by simp
  ultimately show ?thesis
    using dict_row_short [OF assms] by (simp add: record_of_def del: map_append)
qed

lemma parse_rows_acc:
  "(\<And>r. r \<in> set rs \<Longrightarrow> parse_row r [] = Inr (f r)) \<Longrightarrow>
     parse_rows rs data = Inr (data @ map f rs)"
  by (induction rs arbitrary: data) auto

text \<open>
  What holds of claim C7: when the reader hands out a header of distinct column names and
  rows none of which has more cells than the header, the decoder returns one record per
  non-empty row, in order, each the header's names with the row's converted cells.
\<close>

lemma parse_csv_to_json_records:
  assumes "csv_reader c = (h # rows, None)" and "distinct h"
    and "\<And>row. row \<in> set rows \<Longrightarrow> length row \<le> length h"
  shows "snd (parse_csv_to_json c) = Inr (map (record_of h) (filter (\<lambda>row. row \<noteq> []) rows))"
proof -
  let ?rows = "filter (\<lambda>row. row \<noteq> []) rows"
  have "parse_rows (map (dict_row h) ?rows) [] = Inr ([] @ map (\<lambda>d. d) (map (record_of h) ?rows))"
  proof -
    have "parse_rows (map (dict_row h) ?rows) []
        = Inr ([] @ map (\<lambda>d. projr (parse_row d [])) (map (dict_row h) ?rows))"
      using assms(2,3) by (intro parse_rows_acc) (auto simp: parse_row_dict_row)
    moreover have "map (\<lambda>d. projr (parse_row d [])) (map (dict_row h) ?rows) = map (record_of h) ?rows"
      using assms(2,3) by (auto simp: parse_row_dict_row)
    ultimately show ?thesis by simp
  qed
  with assms(1) show ?thesis
    by (simp add: parse_csv_to_json_eq dict_reader_def)
qed

lemma parse_csv_to_json_row_count:
  assumes "csv_reader c = (h # rows, None)" and "distinct h"
    and "\<And>row. row \<in> set rows \<Longrightarrow> row \<noteq> [] \<and> length row \<le> length h"
  shows "\<exists>data. snd (parse_csv_to_json c) = Inr data \<and> length data = length rows
           \<and> (\<forall>i < length rows. data ! i = record_of h (rows ! i))"
proof -
  from assms(3) have "filter (\<lambda>row. row \<noteq> []) rows = rows" by (induction rows) auto
  with parse_csv_to_json_records [OF assms(1,2)] assms(3) show ?thesis by simp
qed

text \<open>
  Claim C7 at a data row longer than the header: \<open>DictReader\<close> stores the surplus cells as
  a list under the key \<open>None\<close>, the conversion calls \<open>replace\<close> on that list, and the decoder
  raises instead of returning the record of the row.
\<close>

theorem parse_csv_to_json_long_row:
  "csv_reader ragged_csv = ([[''a''], [''1'', ''2'']], None)
   \<and> dict_reader (csv_reader ragged_csv)
       = ([[(Some ''a'', CellStr ''1''), (None, CellList [''2''])]], None)
   \<and> snd (parse_csv_to_json ragged_csv)
       = Inl (AttributeError (quoted ''list'' @ '' object has no attribute '' @ quoted ''replace''))"
  by (intro conjI ragged_csv_rows ragged_csv_dicts) (simp add: ragged_csv_parsed)

end
